theory Spec2Isabelle
  imports Complex_Main "HOL-Library.Word" "HOL-Library.AList" "HOL-Library.Multiset"
    "HOL-Library.Product_Lexorder"
begin

unbundle bit_operations_syntax

section \<open>Python values\<close>

text \<open>
  The pipeline passes around what \<^verbatim>\<open>json.loads\<close> produces: \<^verbatim>\<open>None\<close>, booleans,
  unbounded integers, floats, strings, lists and dicts with string keys. A Python
  \<^verbatim>\<open>str\<close> is a sequence of code points; it is modelled as a \<open>string\<close> whose characters
  are the code points 0..255, so \<open>length\<close>, \<open>take\<close> and \<open>drop\<close> count what Python's
  \<^verbatim>\<open>len\<close> and slices count. A float is its exact rational value, or one of the three
  special values. A dict is an association list in insertion order; assignment to a key
  replaces the value in place or appends, as \<open>AList.update\<close> does.
\<close>

datatype pyfloat = Finite rat | PInf | NInf | NaN

datatype json =
    JNull
  | JBool bool
  | JInt int
  | JFloat pyfloat
  | JStr string
  | JArr "json list"
  | JObj "(string \<times> json) list"

type_synonym dict = "(string \<times> json) list"

text \<open>The exceptions that the modelled code can raise.\<close>

datatype exn =
    ValueError string
  | TypeError
  | OverflowError
  | AttributeError
  | KeyError string

definition dict_get :: "dict \<Rightarrow> string \<Rightarrow> json option" where
  "dict_get d k = map_of d k"

definition dict_has :: "dict \<Rightarrow> string \<Rightarrow> bool" where
  "dict_has d k = (map_of d k \<noteq> None)"

definition dict_set :: "dict \<Rightarrow> string \<Rightarrow> json \<Rightarrow> dict" where
  "dict_set d k v = AList.update k v d"

text \<open>\<^verbatim>\<open>d.get(k, default)\<close>\<close>

definition dict_get_or :: "dict \<Rightarrow> string \<Rightarrow> json \<Rightarrow> json" where
  "dict_get_or d k dflt = (case map_of d k of None \<Rightarrow> dflt | Some v \<Rightarrow> v)"

text \<open>Truth value of a Python object, as \<^verbatim>\<open>not x\<close> and \<^verbatim>\<open>if x:\<close> test it.\<close>

fun py_truthy :: "json \<Rightarrow> bool" where
  "py_truthy JNull = False"
| "py_truthy (JBool b) = b"
| "py_truthy (JInt i) = (i \<noteq> 0)"
| "py_truthy (JFloat f) = (f \<noteq> Finite 0)"
| "py_truthy (JStr s) = (s \<noteq> [])"
| "py_truthy (JArr xs) = (xs \<noteq> [])"
| "py_truthy (JObj d) = (d \<noteq> [])"

section \<open>Strings\<close>

text \<open>
  \<^verbatim>\<open>str.isspace\<close>, which is also what \<^verbatim>\<open>str.strip()\<close> removes and what \<^verbatim>\<open>\s\<close> matches in
  a \<^verbatim>\<open>str\<close> pattern: in the range 0..255 these are U+0009..U+000D, U+001C..U+0020,
  U+0085 and U+00A0.
\<close>

definition is_space :: "char \<Rightarrow> bool" where
  "is_space c =
     (let n = (of_char c :: nat)
      in (9 \<le> n \<and> n \<le> 13) \<or> (28 \<le> n \<and> n \<le> 32) \<or> n = 133 \<or> n = 160)"

definition strip :: "string \<Rightarrow> string" where
  "strip s = rev (dropWhile is_space (rev (dropWhile is_space s)))"

text \<open>\<^verbatim>\<open>str.lower()\<close> on the code points 0..255: A..Z and U+00C0..U+00DE without U+00D7.\<close>

definition lower_char :: "char \<Rightarrow> char" where
  "lower_char c =
     (let n = (of_char c :: nat)
      in if (65 \<le> n \<and> n \<le> 90) \<or> (192 \<le> n \<and> n \<le> 222 \<and> n \<noteq> 215)
         then char_of (n + 32) else c)"

definition lower :: "string \<Rightarrow> string" where
  "lower s = map lower_char s"

definition starts_with :: "string \<Rightarrow> string \<Rightarrow> bool" where
  "starts_with p s = (take (length p) s = p)"

text \<open>\<^verbatim>\<open>p in s\<close> for strings.\<close>

fun contains :: "string \<Rightarrow> string \<Rightarrow> bool" where
  "contains p [] = (p = [])"
| "contains p (c # cs) = (starts_with p (c # cs) \<or> contains p cs)"

section \<open>The language-model gateway (ollama\_client.py)\<close>

text \<open>
  The model endpoint, the JSON decoder and the other collaborators are outside the
  repository; they are parameters of the embedding. One call of \<^verbatim>\<open>self.llm.invoke\<close>
  either returns text or raises; the endpoint may answer differently each time, so its
  answer depends on the number of calls made before. \<^verbatim>\<open>json.loads\<close> either returns a
  value or raises \<^verbatim>\<open>JSONDecodeError\<close> with a message. The wording of the prompts (long
  f-strings) does not matter here: each is a function of what the f-string interpolates.
\<close>

datatype llm_outcome = Text string | Raises string

record search_result =
  href :: string
  title :: "string option"

record env =
  llm :: "nat \<Rightarrow> string \<Rightarrow> llm_outcome"
  loads :: "string \<Rightarrow> string + json"
  py_str :: "json \<Rightarrow> string"
  email_prompt :: "string \<Rightarrow> string \<Rightarrow> string \<Rightarrow> string"
  scoring_prompt :: "dict \<Rightarrow> dict \<Rightarrow> exn + string"
  resume_prompt :: "string \<Rightarrow> string"
  research_prompt :: "string \<Rightarrow> (string \<times> string \<times> string) list \<Rightarrow> string"
  gmail_modify :: "string \<Rightarrow> bool"
  GOOGLE_DRIVE_RESUME_ID :: string
  get_resume_text :: "string \<Rightarrow> string"
  search_company :: "string \<Rightarrow> nat \<Rightarrow> search_result list"
  fetch_url_content :: "string \<Rightarrow> string"

text \<open>
  \<^verbatim>\<open>re.search(r'\{.*\}', response, re.DOTALL)\<close>: the greedy match runs from the first
  opening brace to the last closing brace after it.
\<close>

definition re_search_braces :: "string \<Rightarrow> string option" where
  "re_search_braces s =
     (case dropWhile (\<lambda>c. c \<noteq> CHR ''{'') s of
        [] \<Rightarrow> None
      | b # t \<Rightarrow>
          (case rev (dropWhile (\<lambda>c. c \<noteq> CHR ''}'') (rev t)) of
             [] \<Rightarrow> None
           | r \<Rightarrow> Some (b # r)))"

text \<open>
  One pass through the body of the \<^verbatim>\<open>try\<close> after the model has answered: it returns a
  dict, raises (and is caught by \<^verbatim>\<open>except\<close>), or reaches the end of the body.
\<close>

datatype attempt = Returned dict | Caught string | Fell_through

definition decode_whole :: "(string \<Rightarrow> string + json) \<Rightarrow> string \<Rightarrow> attempt" where
  "decode_whole ld response =
     (case ld (strip response) of
        Inl e \<Rightarrow> Caught e
      | Inr (JObj d) \<Rightarrow> Returned d
      | Inr _ \<Rightarrow> Fell_through)"

definition decode_response :: "(string \<Rightarrow> string + json) \<Rightarrow> string \<Rightarrow> attempt" where
  "decode_response ld response =
     (case re_search_braces response of
        None \<Rightarrow> decode_whole ld response
      | Some m \<Rightarrow>
          (case ld m of
             Inl e \<Rightarrow> Caught e
           | Inr (JObj d) \<Rightarrow> Returned d
           | Inr _ \<Rightarrow> decode_whole ld response))"

definition error_result :: "string \<Rightarrow> string \<Rightarrow> dict" where
  "error_result e response =
     [(''error'', JStr e), (''raw_response'', JStr (take 500 response))]"

text \<open>
  The loop \<^verbatim>\<open>for attempt in range(max_retries)\<close>. The state is the variable
  \<^verbatim>\<open>response\<close> and the list of prompts sent to the endpoint so far.
\<close>

fun attempts :: "env \<Rightarrow> string \<Rightarrow> nat \<Rightarrow> nat list \<Rightarrow> string \<Rightarrow> string list
    \<Rightarrow> dict \<times> string list" where
  "attempts E prompt max_retries [] response calls =
     (error_result ''Failed to parse after retries'' response, calls)"
| "attempts E prompt max_retries (attempt # rest) response calls =
     (case llm E (length calls) prompt of
        Raises e \<Rightarrow>
          (if attempt = max_retries - 1 then (error_result e response, calls @ [prompt])
           else attempts E prompt max_retries rest response (calls @ [prompt]))
      | Text r \<Rightarrow>
          (case decode_response (loads E) r of
             Returned d \<Rightarrow> (d, calls @ [prompt])
           | Caught e \<Rightarrow>
               (if attempt = max_retries - 1 then (error_result e r, calls @ [prompt])
                else attempts E prompt max_retries rest r (calls @ [prompt]))
           | Fell_through \<Rightarrow> attempts E prompt max_retries rest r (calls @ [prompt])))"

definition parse_structured :: "env \<Rightarrow> string \<Rightarrow> nat \<Rightarrow> string list \<Rightarrow> dict \<times> string list" where
  "parse_structured E prompt max_retries calls =
     attempts E prompt max_retries [0..<max_retries] [] calls"

section \<open>Email extraction (email\_parser.py)\<close>

text \<open>
  \<^verbatim>\<open>re.sub(r'^RE:\s*', '', subject, flags=re.IGNORECASE)\<close>: the anchor lets the pattern
  match at the start only, so at most one prefix and the white space after it go.
\<close>

definition sub_re_prefix :: "string \<Rightarrow> string" where
  "sub_re_prefix subject =
     (if lower (take 3 subject) = ''re:'' then dropWhile is_space (drop 3 subject)
      else subject)"

text \<open>\<^verbatim>\<open>re.sub(r'^FWD?:\s*', '', subject, flags=re.IGNORECASE)\<close>\<close>

definition sub_fwd_prefix :: "string \<Rightarrow> string" where
  "sub_fwd_prefix subject =
     (if lower (take 4 subject) = ''fwd:'' then dropWhile is_space (drop 4 subject)
      else if lower (take 3 subject) = ''fw:'' then dropWhile is_space (drop 3 subject)
      else subject)"

text \<open>
  \<^verbatim>\<open>re.split(r'[|\-\<dots>]', subject)[0]\<close>: the part before the first separator. The
  class also lists the en dash and the em dash, which lie outside the code points
  modelled.
\<close>

definition split_first :: "string \<Rightarrow> string" where
  "split_first subject = takeWhile (\<lambda>c. c \<noteq> CHR ''|'' \<and> c \<noteq> CHR ''-'') subject"

definition extract_title_from_subject :: "string \<Rightarrow> string" where
  "extract_title_from_subject subject =
     (let subject = sub_re_prefix subject;
          subject = sub_fwd_prefix subject;
          title = strip (split_first subject)
      in take 100 title)"

text \<open>
  The URL pattern \<^verbatim>\<open>https?://[^\s<>"{}|\\^`\[\]]+\<close>: a scheme, then the longest
  non-empty run of characters outside the excluded class.
\<close>

definition url_char :: "char \<Rightarrow> bool" where
  "url_char c =
     (\<not> is_space c \<and>
      c \<notin> set [CHR ''<'', CHR ''>'', CHR 0x22, CHR ''{'', CHR ''}'', CHR ''|'', CHR 0x5C,
                 CHR 0x5E, CHR 0x60, CHR ''['', CHR '']''])"

definition match_url :: "string \<Rightarrow> (string \<times> string) option" where
  "match_url s =
     (let scheme = (if starts_with ''https://'' s then Some ''https://''
                    else if starts_with ''http://'' s then Some ''http://''
                    else None)
      in case scheme of
           None \<Rightarrow> None
         | Some p \<Rightarrow>
             (case takeWhile url_char (drop (length p) s) of
                [] \<Rightarrow> None
              | u \<Rightarrow> Some (p @ u, dropWhile url_char (drop (length p) s))))"

text \<open>
  \<^verbatim>\<open>re.findall\<close>: the matches from left to right, without overlap. The search goes on
  behind a match, or one character further where there is none.
\<close>

function findall_urls :: "string \<Rightarrow> string list" where
  "findall_urls [] = []"
| "findall_urls (c # cs) =
     (case match_url (c # cs) of
        None \<Rightarrow> findall_urls cs
      | Some (u, rest) \<Rightarrow> u # findall_urls rest)"
  by pat_completeness auto
termination
proof (relation "measure length")
  show "wf (measure length)" by simp
next
  fix c :: char and cs :: string
  show "(cs, c # cs) \<in> measure length" by simp
next
  fix c :: char and cs x2 u rest
  assume "match_url (c # cs) = Some x2" and "(u, rest) = x2"
  then have m: "match_url (c # cs) = Some (u, rest)" by simp
  have "length (dropWhile url_char (drop n cs)) < Suc (length cs)" for n
  proof -
    have "length (dropWhile url_char (drop n cs)) \<le> length (drop n cs)"
      by (rule length_dropWhile_le)
    also have "\<dots> < Suc (length cs)" by simp
    finally show ?thesis .
  qed
  with m show "(rest, c # cs) \<in> measure length"
    by (auto simp: match_url_def Let_def split: if_splits list.splits)
qed

definition job_keywords :: "string list" where
  "job_keywords = [''job'', ''career'', ''apply'', ''position'', ''opening'']"

definition extract_url :: "string \<Rightarrow> string" where
  "extract_url body =
     (let urls = findall_urls body
      in case filter (\<lambda>url. \<exists>keyword \<in> set job_keywords. contains keyword (lower url)) urls of
           url # _ \<Rightarrow> url
         | [] \<Rightarrow> (case urls of [] \<Rightarrow> [] | url # _ \<Rightarrow> url))"

definition extract_source :: "string \<Rightarrow> string" where
  "extract_source email_from =
     (let email_lower = lower email_from
      in if contains ''linkedin'' email_lower then ''LinkedIn''
         else if contains ''indeed'' email_lower then ''Indeed''
         else if contains ''glassdoor'' email_lower then ''Glassdoor''
         else if contains ''ziprecruiter'' email_lower then ''ZipRecruiter''
         else if contains ''monster'' email_lower then ''Monster''
         else ''Unknown'')"

text \<open>
  The clean-up that \<^verbatim>\<open>parse_email\<close> applies to the gateway's mapping, statement by
  statement. The title is replaced when the key is missing or its value is falsy; the
  other keys only when they are missing.
\<close>

definition fill_title :: "string \<Rightarrow> dict \<Rightarrow> dict" where
  "fill_title email_subject job_data =
     (if \<not> dict_has job_data ''title'' \<or> \<not> py_truthy (dict_get_or job_data ''title'' JNull)
      then dict_set job_data ''title'' (JStr (extract_title_from_subject email_subject))
      else job_data)"

definition fill_missing :: "string \<Rightarrow> json \<Rightarrow> dict \<Rightarrow> dict" where
  "fill_missing k v job_data = (if \<not> dict_has job_data k then dict_set job_data k v else job_data)"

definition backfill :: "string \<Rightarrow> string \<Rightarrow> string \<Rightarrow> dict \<Rightarrow> dict" where
  "backfill email_subject email_body email_from job_data =
     (let job_data = fill_title email_subject job_data;
          job_data = fill_missing ''company'' (JStr ''Unknown'') job_data;
          job_data = fill_missing ''location'' (JStr ''Unknown'') job_data;
          job_data = fill_missing ''url'' (JStr (extract_url email_body)) job_data;
          job_data = fill_missing ''source'' (JStr (extract_source email_from)) job_data
      in dict_set job_data ''description''
           (dict_get_or job_data ''description'' (JStr (take 500 email_body))))"

definition parse_email :: "env \<Rightarrow> string \<Rightarrow> string \<Rightarrow> string \<Rightarrow> string list
    \<Rightarrow> dict \<times> string list" where
  "parse_email E email_subject email_body email_from calls =
     (let prompt = email_prompt E email_subject email_from (take 2000 email_body);
          (job_data, calls') = parse_structured E prompt 3 calls
      in (backfill email_subject email_body email_from job_data, calls'))"

section \<open>MD5 (hashlib.md5, RFC 1321)\<close>

text \<open>
  \<^verbatim>\<open>hashlib.md5(b).hexdigest()\<close> on a byte string, written out from RFC 1321 on 32-bit
  words: the sine table, the shift amounts, the padding, the four rounds and the
  little-endian output.
\<close>

type_synonym u8 = "8 word"
type_synonym u32 = "32 word"
type_synonym md5_state = "u32 \<times> u32 \<times> u32 \<times> u32"

definition md5_K :: "u32 list" where
  "md5_K = [
    0xd76aa478, 0xe8c7b756, 0x242070db, 0xc1bdceee, 0xf57c0faf, 0x4787c62a, 0xa8304613, 0xfd469501,
    0x698098d8, 0x8b44f7af, 0xffff5bb1, 0x895cd7be, 0x6b901122, 0xfd987193, 0xa679438e, 0x49b40821,
    0xf61e2562, 0xc040b340, 0x265e5a51, 0xe9b6c7aa, 0xd62f105d, 0x02441453, 0xd8a1e681, 0xe7d3fbc8,
    0x21e1cde6, 0xc33707d6, 0xf4d50d87, 0x455a14ed, 0xa9e3e905, 0xfcefa3f8, 0x676f02d9, 0x8d2a4c8a,
    0xfffa3942, 0x8771f681, 0x6d9d6122, 0xfde5380c, 0xa4beea44, 0x4bdecfa9, 0xf6bb4b60, 0xbebfbc70,
    0x289b7ec6, 0xeaa127fa, 0xd4ef3085, 0x04881d05, 0xd9d4d039, 0xe6db99e5, 0x1fa27cf8, 0xc4ac5665,
    0xf4292244, 0x432aff97, 0xab9423a7, 0xfc93a039, 0x655b59c3, 0x8f0ccc92, 0xffeff47d, 0x85845dd1,
    0x6fa87e4f, 0xfe2ce6e0, 0xa3014314, 0x4e0811a1, 0xf7537e82, 0xbd3af235, 0x2ad7d2bb, 0xeb86d391]"

definition md5_S :: "nat list" where
  "md5_S = [7, 12, 17, 22, 7, 12, 17, 22, 7, 12, 17, 22, 7, 12, 17, 22,
            5, 9, 14, 20, 5, 9, 14, 20, 5, 9, 14, 20, 5, 9, 14, 20,
            4, 11, 16, 23, 4, 11, 16, 23, 4, 11, 16, 23, 4, 11, 16, 23,
            6, 10, 15, 21, 6, 10, 15, 21, 6, 10, 15, 21, 6, 10, 15, 21]"

definition rotl32 :: "nat \<Rightarrow> u32 \<Rightarrow> u32" where
  "rotl32 n w = (push_bit n w) OR (drop_bit (32 - n) w)"

text \<open>
  Padding: one byte 0x80, zero bytes up to 56 modulo 64, then the length of the message
  in bits as 64 bits, least significant byte first.
\<close>

definition md5_pad :: "u8 list \<Rightarrow> u8 list" where
  "md5_pad bs =
     (let n = length bs;
          z = (119 - (n mod 64)) mod 64;
          bits = (push_bit 3 (of_nat n) :: 64 word)
      in bs @ [0x80] @ replicate z 0 @ map (\<lambda>i. ucast (drop_bit (8 * i) bits)) [0..<8])"

fun md5_words :: "u8 list \<Rightarrow> u32 list" where
  "md5_words (b0 # b1 # b2 # b3 # rest) =
     (ucast b0 OR push_bit 8 (ucast b1) OR push_bit 16 (ucast b2) OR push_bit 24 (ucast b3))
       # md5_words rest"
| "md5_words _ = []"

fun md5_blocks :: "u32 list \<Rightarrow> u32 list list" where
  "md5_blocks [] = []"
| "md5_blocks (w # ws) = take 16 (w # ws) # md5_blocks (drop 15 ws)"

definition md5_step :: "u32 list \<Rightarrow> md5_state \<Rightarrow> nat \<Rightarrow> md5_state" where
  "md5_step m st i =
     (case st of (a, b, c, d) \<Rightarrow>
        let f = (if i < 16 then (b AND c) OR (NOT b AND d)
                 else if i < 32 then (d AND b) OR (NOT d AND c)
                 else if i < 48 then b XOR c XOR d
                 else c XOR (b OR NOT d));
            g = (if i < 16 then i
                 else if i < 32 then (5 * i + 1) mod 16
                 else if i < 48 then (3 * i + 5) mod 16
                 else (7 * i) mod 16);
            f' = f + a + md5_K ! i + m ! g
        in (d, b + rotl32 (md5_S ! i) f', b, c))"

definition md5_block :: "md5_state \<Rightarrow> u32 list \<Rightarrow> md5_state" where
  "md5_block st m =
     (case st of (a0, b0, c0, d0) \<Rightarrow>
        case foldl (md5_step m) st [0..<64] of (a, b, c, d) \<Rightarrow>
          (a0 + a, b0 + b, c0 + c, d0 + d))"

definition md5_init :: md5_state where
  "md5_init = (0x67452301, 0xefcdab89, 0x98badcfe, 0x10325476)"

definition hex_digits :: string where
  "hex_digits = ''0123456789abcdef''"

definition hex_byte :: "u8 \<Rightarrow> string" where
  "hex_byte b = [hex_digits ! unat (drop_bit 4 b), hex_digits ! unat (b AND 15)]"

definition word_bytes_le :: "u32 \<Rightarrow> u8 list" where
  "word_bytes_le w = map (\<lambda>i. ucast (drop_bit (8 * i) w)) [0..<4]"

definition md5_hexdigest :: "u8 list \<Rightarrow> string" where
  "md5_hexdigest bs =
     (case foldl md5_block md5_init (md5_blocks (md5_words (md5_pad bs))) of
        (a, b, c, d) \<Rightarrow> concat (map hex_byte (concat (map word_bytes_le [a, b, c, d]))))"

text \<open>\<^verbatim>\<open>str.encode()\<close>: UTF-8, one byte below U+0080 and two bytes up to U+00FF.\<close>

definition utf8_char :: "char \<Rightarrow> u8 list" where
  "utf8_char c =
     (let n = (of_char c :: nat)
      in if n < 128 then [of_nat n] else [of_nat (192 + n div 64), of_nat (128 + n mod 64)])"

definition encode :: "string \<Rightarrow> u8 list" where
  "encode s = concat (map utf8_char s)"

section \<open>The job store (storage.py)\<close>

text \<open>
  An f-string field \<^verbatim>\<open>{v}\<close> is \<^verbatim>\<open>str(v)\<close>: a string as it is; the text of any other
  value is left to the parameter \<open>py_str\<close>.
\<close>

definition format_value :: "env \<Rightarrow> json \<Rightarrow> string" where
  "format_value E v = (case v of JStr s \<Rightarrow> s | _ \<Rightarrow> py_str E v)"

definition generate_job_id :: "env \<Rightarrow> dict \<Rightarrow> string" where
  "generate_job_id E job =
     (let unique_string =
            format_value E (dict_get_or job ''title'' (JStr []))
          @ format_value E (dict_get_or job ''company'' (JStr []))
          @ format_value E (dict_get_or job ''url'' (JStr []))
      in take 12 (md5_hexdigest (encode unique_string)))"

text \<open>
  The state that the commands read and change. \<open>files\<close> is the directory of job
  records: the name of each \<^verbatim>\<open>.json\<close> file without the suffix, and the value that
  \<^verbatim>\<open>json.load\<close> reads from it (what \<^verbatim>\<open>json.dump\<close> wrote). \<open>llm_calls\<close> are the prompts
  sent to the model so far. \<open>mark_calls\<close> are the messages for which \<^verbatim>\<open>mark_as_read\<close> was
  called, and \<open>marked_read\<close> those whose label the mail API removed. \<open>events\<close> records
  the branch each message of \<^verbatim>\<open>check_emails\<close> took, as its three \<^verbatim>\<open>print\<close> calls do.
  Reading and writing the files succeeds, and the mail API fails with \<^verbatim>\<open>HttpError\<close> only:
  other failures of the file system and of the network are outside the embedding.
\<close>

datatype outcome = Parsed | Skipped | Failed exn

record world =
  files :: "(string \<times> json) list"
  resume_cache :: "json option"
  llm_calls :: "string list"
  mark_calls :: "string list"
  marked_read :: "string list"
  events :: "(string \<times> outcome) list"

definition get_all_jobs :: "world \<Rightarrow> json list" where
  "get_all_jobs w = map snd (files w)"

text \<open>\<^verbatim>\<open>job.get(k, default)\<close> on a loaded record: only a dict has the method.\<close>

definition job_get :: "json \<Rightarrow> string \<Rightarrow> json \<Rightarrow> exn + json" where
  "job_get job k dflt = (case job of JObj d \<Rightarrow> Inr (dict_get_or d k dflt) | _ \<Rightarrow> Inl AttributeError)"

section \<open>Email ingestion (main.py, gmail\_client.py)\<close>

record email =
  msg_id :: string
  msg_subject :: string
  msg_from :: string
  msg_body :: string

text \<open>
  \<^verbatim>\<open>GmailClient.mark_as_read\<close>: the request may fail with \<^verbatim>\<open>HttpError\<close>, which is printed
  and swallowed.
\<close>

definition mark_as_read :: "env \<Rightarrow> string \<Rightarrow> world \<Rightarrow> world" where
  "mark_as_read E message_id w =
     w\<lparr>mark_calls := mark_calls w @ [message_id],
       marked_read := (if gmail_modify E message_id then marked_read w @ [message_id]
                       else marked_read w)\<rparr>"

text \<open>
  \<^verbatim>\<open>any(job.get("id") == job_id for job in existing_jobs)\<close> stops at the first match, and
  raises at the first record before it that is not a dict.
\<close>

fun any_id_is :: "string \<Rightarrow> json list \<Rightarrow> exn + bool" where
  "any_id_is job_id [] = Inr False"
| "any_id_is job_id (job # jobs) =
     (case job_get job ''id'' JNull of
        Inl e \<Rightarrow> Inl e
      | Inr v \<Rightarrow> if v = JStr job_id then Inr True else any_id_is job_id jobs)"

definition log_event :: "string \<Rightarrow> outcome \<Rightarrow> world \<Rightarrow> world" where
  "log_event message_id oc w = w\<lparr>events := events w @ [(message_id, oc)]\<rparr>"

text \<open>One iteration of the loop of \<^verbatim>\<open>check_emails\<close>, with its \<^verbatim>\<open>try\<close> and \<^verbatim>\<open>except\<close>.\<close>

fun check_email :: "env \<Rightarrow> email \<Rightarrow> world \<times> nat \<Rightarrow> world \<times> nat" where
  "check_email E email (w, parsed_count) =
     (let (job_data, calls') =
            parse_email E (msg_subject email) (msg_body email) (msg_from email) (llm_calls w);
          w = w\<lparr>llm_calls := calls'\<rparr>;
          existing_jobs = get_all_jobs w;
          job_id = generate_job_id E job_data
      in (case any_id_is job_id existing_jobs of
            Inl e \<Rightarrow> (log_event (msg_id email) (Failed e) w, parsed_count)
          | Inr True \<Rightarrow>
              (mark_as_read E (msg_id email) (log_event (msg_id email) Skipped w), parsed_count)
          | Inr False \<Rightarrow>
              (let job_data = dict_set job_data ''id'' (JStr job_id);
                   w = w\<lparr>files := AList.update job_id (JObj job_data) (files w)\<rparr>;
                   w = log_event (msg_id email) Parsed w
               in (mark_as_read E (msg_id email) w, parsed_count + 1))))"

definition check_emails :: "env \<Rightarrow> email list \<Rightarrow> world \<Rightarrow> world \<times> nat" where
  "check_emails E emails w = foldl (\<lambda>st email. check_email E email st) (w, 0) emails"

section \<open>Scoring (job\_scorer.py, main.py)\<close>

text \<open>
  \<^verbatim>\<open>int(x)\<close>. A string may have white space at both ends and a sign, and consists of
  decimal digits with single underscores between them. The white space that \<^verbatim>\<open>int\<close>
  skips is narrower than that of \<^verbatim>\<open>str.strip\<close>: the conversion turns the white space
  above U+007F into blanks and then skips the white space of C, so U+001C..U+001F are
  not skipped (\<^verbatim>\<open>int('\x1c5')\<close> raises). A string with more than
  \<^verbatim>\<open>sys.int_max_str_digits\<close> digits (4300 unless configured otherwise) raises
  \<^verbatim>\<open>ValueError\<close>. A finite float is truncated towards zero; an infinite one raises
  \<^verbatim>\<open>OverflowError\<close>, a NaN \<^verbatim>\<open>ValueError\<close>. \<^verbatim>\<open>None\<close>, lists and dicts raise \<^verbatim>\<open>TypeError\<close>.
\<close>

definition is_int_space :: "char \<Rightarrow> bool" where
  "is_int_space c =
     (let n = (of_char c :: nat) in (9 \<le> n \<and> n \<le> 13) \<or> n = 32 \<or> n = 133 \<or> n = 160)"

definition int_max_str_digits :: int where
  "int_max_str_digits = 4300"

definition is_digit :: "char \<Rightarrow> bool" where
  "is_digit c = (let n = (of_char c :: nat) in 48 \<le> n \<and> n \<le> 57)"

definition digit_val :: "char \<Rightarrow> int" where
  "digit_val c = int (of_char c) - 48"

fun dec_digits :: "int \<Rightarrow> bool \<Rightarrow> string \<Rightarrow> int option" where
  "dec_digits acc after_digit [] = (if after_digit then Some acc else None)"
| "dec_digits acc after_digit (c # cs) =
     (if is_digit c then dec_digits (10 * acc + digit_val c) True cs
      else if c = CHR ''_'' \<and> after_digit then dec_digits acc False cs
      else None)"

definition dec_literal :: "string \<Rightarrow> int option" where
  "dec_literal ds =
     (if int (length (filter is_digit ds)) > int_max_str_digits then None
      else dec_digits 0 False ds)"

definition int_of_str :: "string \<Rightarrow> int option" where
  "int_of_str s =
     (case rev (dropWhile is_int_space (rev (dropWhile is_int_space s))) of
        [] \<Rightarrow> None
      | c # cs \<Rightarrow>
          if c = CHR ''-'' then map_option uminus (dec_literal cs)
          else if c = CHR ''+'' then dec_literal cs
          else dec_literal (c # cs))"

fun py_int :: "json \<Rightarrow> exn + int" where
  "py_int (JInt i) = Inr i"
| "py_int (JBool b) = Inr (if b then 1 else 0)"
| "py_int (JFloat (Finite r)) = Inr (if 0 \<le> r then \<lfloor>r\<rfloor> else \<lceil>r\<rceil>)"
| "py_int (JFloat NaN) = Inl (ValueError ''cannot convert float NaN to integer'')"
| "py_int (JFloat _) = Inl OverflowError"
| "py_int (JStr s) =
     (case int_of_str s of
        Some i \<Rightarrow> Inr i
      | None \<Rightarrow> Inl (ValueError ''invalid literal for int() with base 10''))"
| "py_int _ = Inl TypeError"

text \<open>\<^verbatim>\<open>len(x)\<close>\<close>

fun py_len :: "json \<Rightarrow> exn + nat" where
  "py_len (JStr s) = Inr (length s)"
| "py_len (JArr xs) = Inr (length xs)"
| "py_len (JObj d) = Inr (length (remdups (map fst d)))"
| "py_len _ = Inl TypeError"

text \<open>
  The \<^verbatim>\<open>try\<close> that puts the score into range. Its handler catches \<^verbatim>\<open>ValueError\<close> and
  \<^verbatim>\<open>TypeError\<close>; any other exception leaves \<^verbatim>\<open>score_job\<close>.
\<close>

definition clamp_score :: "dict \<Rightarrow> exn + dict" where
  "clamp_score scoring_result =
     (case py_int (dict_get_or scoring_result ''score'' (JInt 0)) of
        Inr score \<Rightarrow> Inr (dict_set scoring_result ''score'' (JInt (max 0 (min 100 score))))
      | Inl (ValueError _) \<Rightarrow> Inr (dict_set scoring_result ''score'' (JInt 0))
      | Inl TypeError \<Rightarrow> Inr (dict_set scoring_result ''score'' (JInt 0))
      | Inl e \<Rightarrow> Inl e)"

definition scoring_failed :: "env \<Rightarrow> dict \<Rightarrow> dict" where
  "scoring_failed E scoring_result =
     [(''score'', JInt 0),
      (''reasoning'', JStr (''Scoring failed: '' @
         format_value E (dict_get_or scoring_result ''error'' (JStr ''Unknown error'')))),
      (''skill_match_score'', JInt 0),
      (''experience_match_score'', JInt 0),
      (''preferences_match_score'', JInt 0),
      (''location_match_score'', JInt 0),
      (''overall_fit_score'', JInt 0),
      (''matched_skills'', JArr []),
      (''missing_skills'', JArr []),
      (''error'', dict_get_or scoring_result ''error'' (JStr ''Unknown''))]"

definition scoring_defaults :: "dict \<Rightarrow> dict" where
  "scoring_defaults scoring_result =
     (let scoring_result =
            fill_missing ''reasoning'' (JStr ''Score calculated based on resume match'')
              scoring_result;
          scoring_result = fill_missing ''matched_skills'' (JArr []) scoring_result
      in fill_missing ''missing_skills'' (JArr []) scoring_result)"

definition score_job :: "env \<Rightarrow> dict \<Rightarrow> dict \<Rightarrow> string list \<Rightarrow> (exn + dict) \<times> string list" where
  "score_job E resume_data job calls =
     (case scoring_prompt E resume_data job of
        Inl e \<Rightarrow> (Inl e, calls)
      | Inr prompt \<Rightarrow>
          (let (scoring_result, calls') = parse_structured E prompt 3 calls
           in if dict_has scoring_result ''error''
              then (Inr (scoring_failed E scoring_result), calls')
              else (case clamp_score scoring_result of
                      Inl e \<Rightarrow> (Inl e, calls')
                    | Inr scoring_result \<Rightarrow>
                        (let scoring_result = scoring_defaults scoring_result
                         in case py_len (dict_get_or resume_data ''skills'' (JArr [])) of
                              Inl e \<Rightarrow> (Inl e, calls')
                            | Inr n \<Rightarrow>
                                (let scoring_result =
                                       dict_set scoring_result ''resume_skills_count''
                                         (JInt (int n));
                                     scoring_result =
                                       dict_set scoring_result ''job_title''
                                         (dict_get_or job ''title'' (JStr []))
                                 in (Inr (dict_set scoring_result ''job_company''
                                            (dict_get_or job ''company'' (JStr []))),
                                     calls'))))))"

text \<open>
  One iteration of the loop of \<^verbatim>\<open>score_jobs\<close>: the score and the scoring result are put
  on the record and the record is written back under its id; an exception anywhere in
  the body is printed and the record stays as it was.
\<close>

definition score_jobs_step :: "env \<Rightarrow> dict \<Rightarrow> dict \<Rightarrow> world \<Rightarrow> world" where
  "score_jobs_step E resume_data job w =
     (case score_job E resume_data job (llm_calls w) of
        (Inl e, calls') \<Rightarrow> w\<lparr>llm_calls := calls'\<rparr>
      | (Inr scoring_result, calls') \<Rightarrow>
          (case dict_get scoring_result ''score'' of
             None \<Rightarrow> w\<lparr>llm_calls := calls'\<rparr>
           | Some score \<Rightarrow>
               (let job = dict_set job ''score'' score;
                    job = dict_set job ''scoring'' (JObj scoring_result)
                in case dict_get job ''id'' of
                     None \<Rightarrow> w\<lparr>llm_calls := calls'\<rparr>
                   | Some i \<Rightarrow>
                       w\<lparr>llm_calls := calls',
                         files := AList.update (format_value E i) (JObj job) (files w)\<rparr>)))"

section \<open>Resume ingestion (resume\_parser.py)\<close>

definition resume_defaults :: "string \<Rightarrow> dict \<Rightarrow> dict" where
  "resume_defaults resume_text resume_data =
     (let resume_data = fill_missing ''skills'' (JArr []) resume_data;
          resume_data = fill_missing ''experience_years'' (JInt 0) resume_data;
          resume_data = fill_missing ''experience_level'' (JStr ''mid'') resume_data
      in dict_set resume_data ''raw_text'' (JStr resume_text))"

definition fetch_and_parse_resume :: "env \<Rightarrow> world \<Rightarrow> (exn + json) \<times> world" where
  "fetch_and_parse_resume E w =
     (if GOOGLE_DRIVE_RESUME_ID E = []
      then (Inl (ValueError ''GOOGLE_DRIVE_RESUME_ID not set in .env''), w)
      else (let resume_text = get_resume_text E (GOOGLE_DRIVE_RESUME_ID E)
            in if resume_text = []
               then (Inl (ValueError ''Failed to fetch resume from Google Docs''), w)
               else (let (resume_data, calls') =
                           parse_structured E (resume_prompt E resume_text) 3 (llm_calls w);
                         w = w\<lparr>llm_calls := calls'\<rparr>
                     in if dict_has resume_data ''error''
                        then (Inl (ValueError (''Failed to parse resume: '' @
                                format_value E
                                  (dict_get_or resume_data ''error'' (JStr ''Unknown error'')))),
                              w)
                        else (let resume_data = resume_defaults resume_text resume_data
                              in (Inr (JObj resume_data),
                                  w\<lparr>resume_cache := Some (JObj resume_data)\<rparr>)))))"

definition parse_resume :: "env \<Rightarrow> bool \<Rightarrow> world \<Rightarrow> (exn + json) \<times> world" where
  "parse_resume E force_refresh w =
     (if force_refresh then fetch_and_parse_resume E w
      else (case resume_cache w of
              None \<Rightarrow> fetch_and_parse_resume E w
            | Some cached \<Rightarrow>
                if py_truthy cached then (Inr cached, w) else fetch_and_parse_resume E w))"

section \<open>Company research (company\_researcher.py)\<close>

text \<open>
  \<^verbatim>\<open>_search_company\<close> returns the search results, or the empty list when the search
  raises; \<^verbatim>\<open>_fetch_url_content\<close> returns the text of a page, or the empty string when the
  fetch fails. Both are parameters. The loop keeps the pages with non-empty text.
\<close>

definition fetch_pages :: "env \<Rightarrow> search_result list \<Rightarrow> (string \<times> string \<times> string) list" where
  "fetch_pages E results =
     concat (map (\<lambda>result.
        let content = fetch_url_content E (href result)
        in if content \<noteq> []
           then [(href result, case title result of None \<Rightarrow> [] | Some t \<Rightarrow> t, take 2000 content)]
           else []) results)"

definition no_information :: "string \<Rightarrow> dict" where
  "no_information company_name =
     [(''company'', JStr company_name),
      (''summary'', JStr ''No information found''),
      (''tech_stack'', JArr []),
      (''values'', JArr []),
      (''recent_news'', JArr []),
      (''culture'', JStr ''Unknown'')]"

definition research_failed :: "env \<Rightarrow> string \<Rightarrow> json \<Rightarrow> dict \<Rightarrow> dict" where
  "research_failed E company_name sources research_result =
     [(''company'', JStr company_name),
      (''summary'', JStr (''Research failed: '' @
         format_value E (dict_get_or research_result ''error'' (JStr ''Unknown error'')))),
      (''tech_stack'', JArr []),
      (''values'', JArr []),
      (''recent_news'', JArr []),
      (''culture'', JStr ''Unknown''),
      (''size'', JStr ''Unknown''),
      (''industry'', JStr ''Unknown''),
      (''funding_stage'', JStr ''Unknown''),
      (''sources'', sources),
      (''error'', dict_get_or research_result ''error'' (JStr ''Unknown''))]"

definition research_defaults :: "string \<Rightarrow> json \<Rightarrow> dict \<Rightarrow> dict" where
  "research_defaults company_name sources research_result =
     (let research_result = fill_missing ''company'' (JStr company_name) research_result;
          research_result = fill_missing ''tech_stack'' (JArr []) research_result;
          research_result = fill_missing ''values'' (JArr []) research_result;
          research_result = fill_missing ''recent_news'' (JArr []) research_result
      in dict_set research_result ''sources'' sources)"

definition research_company :: "env \<Rightarrow> string \<Rightarrow> nat \<Rightarrow> string list \<Rightarrow> dict \<times> string list" where
  "research_company E company_name max_urls calls =
     (let search_results = search_company E company_name max_urls;
          url_contents = fetch_pages E (take max_urls search_results)
      in if url_contents = [] then (no_information company_name, calls)
         else (let (research_result, calls') =
                     parse_structured E (research_prompt E company_name url_contents) 3 calls;
                   sources = JArr (map (\<lambda>item. JStr (fst item)) url_contents)
               in if dict_has research_result ''error''
                  then (research_failed E company_name sources research_result, calls')
                  else (research_defaults company_name sources research_result, calls')))"

section \<open>Review (main.py, storage.py)\<close>

text \<open>
  \<^verbatim>\<open>score >= min_score\<close> with an integer on the right: defined for numbers (a boolean
  is an integer; a float is compared by its exact value, and NaN is never greater or
  equal), \<^verbatim>\<open>TypeError\<close> for anything else.
\<close>

fun py_ge_int :: "json \<Rightarrow> int \<Rightarrow> exn + bool" where
  "py_ge_int (JInt i) m = Inr (m \<le> i)"
| "py_ge_int (JBool b) m = Inr (m \<le> (if b then 1 else 0))"
| "py_ge_int (JFloat (Finite r)) m = Inr (of_int m \<le> r)"
| "py_ge_int (JFloat PInf) m = Inr True"
| "py_ge_int (JFloat _) m = Inr False"
| "py_ge_int _ m = Inl TypeError"

text \<open>The list comprehension \<^verbatim>\<open>[job for job in jobs if job.get("score", 0) >= min_score]\<close>.\<close>

fun at_least :: "int \<Rightarrow> json list \<Rightarrow> exn + json list" where
  "at_least min_score [] = Inr []"
| "at_least min_score (job # jobs) =
     (case job_get job ''score'' (JInt 0) of
        Inl e \<Rightarrow> Inl e
      | Inr score \<Rightarrow>
          (case py_ge_int score min_score of
             Inl e \<Rightarrow> Inl e
           | Inr keep \<Rightarrow>
               (case at_least min_score jobs of
                  Inl e \<Rightarrow> Inl e
                | Inr rest \<Rightarrow> Inr (if keep then job # rest else rest))))"

definition get_high_scoring_jobs :: "world \<Rightarrow> int \<Rightarrow> exn + json list" where
  "get_high_scoring_jobs w min_score = at_least min_score (get_all_jobs w)"




section \<open>Concrete collaborators\<close>

text \<open>
  Collaborators for running the definitions on examples: a decoder given by a finite
  table of texts and their values, which rejects every other text, and an environment
  whose model endpoint is unreachable and whose other services are trivial. The examples
  replace the fields they need.
\<close>

definition table_loads :: "(string \<times> json) list \<Rightarrow> string \<Rightarrow> string + json" where
  "table_loads tbl s =
     (case map_of tbl s of
        Some v \<Rightarrow> Inr v
      | None \<Rightarrow> Inl ''Expecting value: line 1 column 1 (char 0)'')"

definition offline :: env where
  "offline =
     \<lparr>llm = (\<lambda>n prompt. Raises ''Connection refused''),
      loads = table_loads [],
      py_str = (\<lambda>v. ''<object>''),
      email_prompt = (\<lambda>email_subject email_from email_body.
         ''Extract job information: '' @ email_subject @ email_from @ email_body),
      scoring_prompt = (\<lambda>resume_data job. Inr ''Score this job posting''),
      resume_prompt = (\<lambda>resume_text. ''Extract from this resume: '' @ resume_text),
      research_prompt = (\<lambda>company_name url_contents. ''Research this company: '' @ company_name),
      gmail_modify = (\<lambda>message_id. True),
      GOOGLE_DRIVE_RESUME_ID = ''doc-1'',
      get_resume_text = (\<lambda>document_id. ''Python developer, 5 years''),
      search_company = (\<lambda>company_name max_results. []),
      fetch_url_content = (\<lambda>url. [])\<rparr>"

definition empty_world :: world where
  "empty_world =
     \<lparr>files = [], resume_cache = None, llm_calls = [], mark_calls = [], marked_read = [],
      events = []\<rparr>"

text \<open>An endpoint that answers every prompt with the same refusal in prose.\<close>

definition chatty :: env where
  "chatty = offline\<lparr>llm := (\<lambda>n prompt. Text ''Sorry, I cannot help with that.'')\<rparr>"

text \<open>
  The mapping that \<^verbatim>\<open>parse_email\<close> returns for a message in a given state, and the id
  that \<^verbatim>\<open>check_emails\<close> computes from it before it writes anything.
\<close>

definition email_job :: "env \<Rightarrow> email \<Rightarrow> world \<Rightarrow> dict" where
  "email_job E email w =
     fst (parse_email E (msg_subject email) (msg_body email) (msg_from email) (llm_calls w))"

definition email_job_id :: "env \<Rightarrow> email \<Rightarrow> world \<Rightarrow> string" where
  "email_job_id E email w = generate_job_id E (email_job E email w)"

text \<open>The stored records that carry a given id.\<close>

definition records_with_id :: "string \<Rightarrow> world \<Rightarrow> json list" where
  "records_with_id job_id w =
     filter (\<lambda>job. job_get job ''id'' JNull = Inr (JStr job_id)) (get_all_jobs w)"

definition is_dict :: "json \<Rightarrow> bool" where
  "is_dict job = (case job of JObj d \<Rightarrow> True | _ \<Rightarrow> False)"

text \<open>
  The shape of the directory that the commands keep up: file names are unique, and each
  file holds a dict whose \<^verbatim>\<open>id\<close> is the name of the file, as \<^verbatim>\<open>check_emails\<close> writes it.
\<close>

definition named_by_id :: "string \<times> json \<Rightarrow> bool" where
  "named_by_id f = (case snd f of JObj d \<Rightarrow> dict_get d ''id'' = Some (JStr (fst f)) | _ \<Rightarrow> False)"

definition store_ok :: "world \<Rightarrow> bool" where
  "store_ok w = (distinct (map fst (files w)) \<and> list_all named_by_id (files w))"

text \<open>
  An endpoint that answers with a JSON object for a job posting, together with the value
  that the decoder gives for that text, and a job alert.
\<close>

definition acme_answer :: string where
  \<open>acme_answer =
     ''{"title": "Senior Backend Engineer", "company": "Acme Corp", "url": "https://acme.com/careers/123"}''\<close>

definition acme_env :: env where
  "acme_env = offline
     \<lparr>llm := (\<lambda>n prompt. Text acme_answer),
      loads := table_loads
        [(acme_answer,
          JObj [(''title'', JStr ''Senior Backend Engineer''), (''company'', JStr ''Acme Corp''),
                (''url'', JStr ''https://acme.com/careers/123'')])]\<rparr>"

definition acme_email :: email where
  "acme_email =
     \<lparr>msg_id = ''msg-1'',
      msg_subject = ''Senior Backend Engineer - Acme Corp'',
      msg_from = ''jobs@linkedin.com'',
      msg_body = ''Apply at https://acme.com/careers/123 today''\<rparr>"

text \<open>The outcomes after which \<^verbatim>\<open>check_emails\<close> calls \<^verbatim>\<open>mark_as_read\<close>.\<close>

fun marks_read :: "outcome \<Rightarrow> bool" where
  "marks_read Parsed = True"
| "marks_read Skipped = True"
| "marks_read (Failed e) = False"

text \<open>A store that holds the record of that job alert, and one with a stray file.\<close>

definition acme_world :: world where
  "acme_world = empty_world
     \<lparr>files :=
        [(''353df23f75cb'',
          JObj [(''title'', JStr ''Senior Backend Engineer''), (''company'', JStr ''Acme Corp''),
                (''url'', JStr ''https://acme.com/careers/123''),
                (''location'', JStr ''Unknown''), (''source'', JStr ''LinkedIn''),
                (''description'', JStr ''Apply at https://acme.com/careers/123 today''),
                (''id'', JStr ''353df23f75cb'')])]\<rparr>"

definition stray_world :: world where
  "stray_world = empty_world\<lparr>files := [(''notes'', JArr [])]\<rparr>"

text \<open>The mapping that the gateway returns to \<^verbatim>\<open>parse_email\<close>, before the clean-up.\<close>

definition gateway_job :: "env \<Rightarrow> string \<Rightarrow> string \<Rightarrow> string \<Rightarrow> string list \<Rightarrow> dict" where
  "gateway_job E email_subject email_body email_from calls =
     fst (parse_structured E (email_prompt E email_subject email_from (take 2000 email_body)) 3
            calls)"

text \<open>
  An endpoint whose answer carries an empty title, an empty company and an empty
  location, with the decoder's value for that text.
\<close>

definition blank_answer :: string where
  \<open>blank_answer = ''{"title": "", "company": "", "location": "", "url": "https://acme.com/careers/123"}''\<close>

definition blank_env :: env where
  "blank_env = offline
     \<lparr>llm := (\<lambda>n prompt. Text blank_answer),
      loads := table_loads
        [(blank_answer,
          JObj [(''title'', JStr []), (''company'', JStr []), (''location'', JStr []),
                (''url'', JStr ''https://acme.com/careers/123'')])]\<rparr>"

text \<open>
  A stored record and a cached resume for the examples; an endpoint that answers the
  scoring prompt with a score too large for a float, which \<^verbatim>\<open>json.loads\<close> reads as
  infinity; and an endpoint that answers with an empty JSON object.
\<close>

definition acme_job :: dict where
  "acme_job =
     [(''title'', JStr ''Senior Backend Engineer''), (''company'', JStr ''Acme Corp''),
      (''url'', JStr ''https://acme.com/careers/123''),
      (''location'', JStr ''Unknown''), (''source'', JStr ''LinkedIn''),
      (''description'', JStr ''Apply at https://acme.com/careers/123 today''),
      (''id'', JStr ''353df23f75cb'')]"

definition python_resume :: dict where
  "python_resume =
     [(''skills'', JArr [JStr ''Python'', JStr ''AWS'']), (''experience_years'', JInt 5),
      (''experience_level'', JStr ''mid'')]"

definition huge_score_answer :: string where
  \<open>huge_score_answer = ''{"score": 1e999}''\<close>

definition huge_score_env :: env where
  "huge_score_env = offline
     \<lparr>llm := (\<lambda>n prompt. Text huge_score_answer),
      loads := table_loads [(huge_score_answer, JObj [(''score'', JFloat PInf)])]\<rparr>"

definition empty_object_env :: env where
  "empty_object_env = offline
     \<lparr>llm := (\<lambda>n prompt. Text ''{}''),
      loads := table_loads [(''{}'', JObj [])]\<rparr>"

text \<open>
  The fields that the prompts of \<^verbatim>\<open>parse_resume\<close>, \<^verbatim>\<open>parse_email\<close>, \<^verbatim>\<open>research_company\<close>
  and \<^verbatim>\<open>score_job\<close> ask the model for.
\<close>

definition resume_fields :: "string list" where
  "resume_fields =
     [''skills'', ''experience_years'', ''experience_level'', ''education'',
      ''notable_projects'', ''areas_of_expertise'', ''current_role'', ''previous_roles'']"

definition email_fields :: "string list" where
  "email_fields =
     [''title'', ''company'', ''location'', ''description'', ''url'', ''source'', ''salary'',
      ''employment_type'']"

definition research_fields :: "string list" where
  "research_fields =
     [''company'', ''summary'', ''tech_stack'', ''values'', ''recent_news'', ''culture'',
      ''size'', ''industry'', ''funding_stage'']"

definition scoring_fields :: "string list" where
  "scoring_fields =
     [''score'', ''reasoning'', ''skill_match_score'', ''experience_match_score'',
      ''preferences_match_score'', ''location_match_score'', ''overall_fit_score'',
      ''matched_skills'', ''missing_skills'']"














section \<open>The gateway retries a bounded number of times and never raises\<close>

lemma upt_3: "[0..<3] = [0, Suc 0, 2]"
  by (simp add: upt_rec)

lemma attempts_total:
  "\<exists>d n. attempts E prompt m idxs response calls = (d, calls @ replicate n prompt)
     \<and> n \<le> length idxs \<and> (idxs \<noteq> [] \<longrightarrow> 1 \<le> n)"
proof (induction idxs arbitrary: response calls)
  case Nil
  show ?case by simp
next
  case (Cons i idxs)
  have step: "\<exists>d n. attempts E prompt m idxs r (calls @ [prompt]) = (d, calls @ replicate n prompt)
     \<and> n \<le> length (i # idxs) \<and> 1 \<le> n" for r
  proof -
    obtain d n where
      "attempts E prompt m idxs r (calls @ [prompt]) = (d, (calls @ [prompt]) @ replicate n prompt)"
      and "n \<le> length idxs"
      using Cons.IH by blast
    then have "attempts E prompt m idxs r (calls @ [prompt]) = (d, calls @ replicate (Suc n) prompt)
       \<and> Suc n \<le> length (i # idxs) \<and> 1 \<le> Suc n"
      by simp
    then show ?thesis by blast
  qed
  have one: "\<exists>n. calls @ [prompt] = calls @ replicate n prompt \<and> n \<le> length (i # idxs) \<and> 1 \<le> n"
    by (rule exI [of _ 1]) simp
  show ?case
    using step one by (simp split: llm_outcome.split attempt.split)
qed

lemma parse_structured_total:
  "\<exists>d n. parse_structured E prompt 3 calls = (d, calls @ replicate n prompt) \<and> 1 \<le> n \<and> n \<le> 3"
  using attempts_total [of E prompt 3 "[0..<3]" "[]" calls]
  by (auto simp: parse_structured_def)

lemma parse_structured_exhausted:
  assumes "\<forall>i. \<exists>r. llm E i prompt = Text r \<and> (\<forall>d. decode_response (loads E) r \<noteq> Returned d)"
  shows "\<exists>e r. llm E (length calls + 2) prompt = Text r \<and>
     parse_structured E prompt 3 calls = (error_result e r, calls @ [prompt, prompt, prompt])"
proof -
  obtain r0 where r0: "llm E (length calls) prompt = Text r0"
      "\<forall>d. decode_response (loads E) r0 \<noteq> Returned d"
    using assms by blast
  obtain r1 where r1: "llm E (Suc (length calls)) prompt = Text r1"
      "\<forall>d. decode_response (loads E) r1 \<noteq> Returned d"
    using assms by blast
  obtain r2 where r2: "llm E (Suc (Suc (length calls))) prompt = Text r2"
      "\<forall>d. decode_response (loads E) r2 \<noteq> Returned d"
    using assms by blast
  show ?thesis
    unfolding parse_structured_def upt_3 using r0 r1 r2
    by (cases "decode_response (loads E) r0"; cases "decode_response (loads E) r1";
        cases "decode_response (loads E) r2") auto
qed

text \<open>
  C1. Whatever the endpoint and the decoder do, \<open>parse_structured\<close> returns a mapping
  (it is a total function: every exception of the loop body is caught) after sending the
  same prompt at least once and at most 3 times. When every answer of the endpoint is a
  text from which no dict is decoded, it sends the prompt exactly 3 times and returns
  the mapping with the keys \<^verbatim>\<open>error\<close> and \<^verbatim>\<open>raw_response\<close>, the latter the first 500
  characters of the third answer.
\<close>

theorem parse_structured_retry_bound:
  "(\<exists>d n. parse_structured E prompt 3 calls = (d, calls @ replicate n prompt) \<and> 1 \<le> n \<and> n \<le> 3) \<and>
   ((\<forall>i. \<exists>r. llm E i prompt = Text r \<and> (\<forall>d. decode_response (loads E) r \<noteq> Returned d)) \<longrightarrow>
    (\<exists>e r. llm E (length calls + 2) prompt = Text r \<and>
       parse_structured E prompt 3 calls =
         ([(''error'', JStr e), (''raw_response'', JStr (take 500 r))],
          calls @ [prompt, prompt, prompt])))"
  using parse_structured_total [of E prompt calls] parse_structured_exhausted [of E prompt calls]
  by (simp add: error_result_def)

theorem parse_structured_retry_bound_witness:
  "(\<forall>i. \<exists>r. llm chatty i ''Extract'' = Text r \<and>
      (\<forall>d. decode_response (loads chatty) r \<noteq> Returned d)) \<and>
   (\<exists>e. parse_structured chatty ''Extract'' 3 [] =
      ([(''error'', JStr e), (''raw_response'', JStr ''Sorry, I cannot help with that.'')],
       [''Extract'', ''Extract'', ''Extract'']))"
proof -
  have h: "\<forall>i. \<exists>r. llm chatty i ''Extract'' = Text r \<and>
      (\<forall>d. decode_response (loads chatty) r \<noteq> Returned d)"
    by (simp add: chatty_def offline_def decode_response_def decode_whole_def
        re_search_braces_def table_loads_def)
  have t: "llm chatty n p = Text ''Sorry, I cannot help with that.''" for n p
    by (simp add: chatty_def offline_def)
  from parse_structured_retry_bound [of chatty "''Extract''" "[]"] h
  show ?thesis by (auto simp: t)
qed

section \<open>The job id\<close>

lemma length_hex_byte: "length (hex_byte b) = 2"
  by (simp add: hex_byte_def)

lemma length_word_bytes_le: "length (word_bytes_le w) = 4"
  by (simp add: word_bytes_le_def)

lemma length_md5_hexdigest: "length (md5_hexdigest bs) = 32"
proof -
  obtain a b c d where
    s: "foldl md5_block md5_init (md5_blocks (md5_words (md5_pad bs))) = (a, b, c, d)"
    using prod_cases4 by blast
  have "length (concat (map hex_byte xs)) = 2 * length xs" for xs
    by (induction xs) (simp_all add: length_hex_byte)
  then show ?thesis
    by (simp add: md5_hexdigest_def s length_word_bytes_le)
qed

lemma nibble_high: "unat (drop_bit 4 (b :: 8 word)) < 16"
proof -
  have "unat b < 256" using unsigned_less [of b] by simp
  then have "unat b div 16 < 16" by arith
  then show ?thesis by (simp add: drop_bit_eq_div unat_div)
qed

lemma nibble_low: "unat ((b :: 8 word) AND 15) < 16"
proof -
  have "unat (b AND 15) \<le> unat (15 :: 8 word)"
    by (rule word_and_le1 [THEN word_le_nat_alt [THEN iffD1]])
  then show ?thesis by simp
qed

lemma hex_byte_hex: "set (hex_byte b) \<subseteq> set hex_digits"
proof -
  have "length hex_digits = 16" by (simp add: hex_digits_def)
  then show ?thesis
    using nibble_high [of b] nibble_low [of b] by (simp add: hex_byte_def)
qed

lemma md5_hexdigest_hex: "set (md5_hexdigest bs) \<subseteq> set hex_digits"
proof -
  obtain a b c d where
    s: "foldl md5_block md5_init (md5_blocks (md5_words (md5_pad bs))) = (a, b, c, d)"
    using prod_cases4 by blast
  have "set (concat (map hex_byte xs)) \<subseteq> set hex_digits" for xs
    using hex_byte_hex by auto
  then show ?thesis
    unfolding md5_hexdigest_def s by simp
qed

text \<open>
  Three digests of the test suite of RFC 1321, one of them of a message of two blocks:
  the definitions above compute MD5 on them.
\<close>

lemma md5_test_suite:
  "md5_hexdigest (encode []) = ''d41d8cd98f00b204e9800998ecf8427e''"
  "md5_hexdigest (encode ''abc'') = ''900150983cd24fb0d6963f7d28e17f72''"
  "md5_hexdigest (encode
     ''12345678901234567890123456789012345678901234567890123456789012345678901234567890'')
     = ''57edf4a22be3c955ac49da2e2107b67a''"
  by code_simp+

text \<open>
  C4, as amended. The id depends on the record through its title, company and url only:
  two records that agree on the three (a missing one counting as the empty string) have
  the same id. For string fields the id is the first 12 characters of the hexadecimal
  MD5 digest of the UTF-8 bytes of title, company and url concatenated; an empty url and
  a missing url both contribute the empty string, so the id is then that of title and
  company. The id has 12 characters, all of them lower-case hexadecimal digits. The
  strings are hashed as they are: nothing makes the id independent of letter case.
\<close>

theorem generate_job_id_pure:
  "(dict_get_or ja ''title'' (JStr []) = dict_get_or jb ''title'' (JStr []) \<and>
    dict_get_or ja ''company'' (JStr []) = dict_get_or jb ''company'' (JStr []) \<and>
    dict_get_or ja ''url'' (JStr []) = dict_get_or jb ''url'' (JStr [])
      \<longrightarrow> generate_job_id E ja = generate_job_id E jb) \<and>
   (dict_get j ''title'' = Some (JStr t) \<and> dict_get j ''company'' = Some (JStr c) \<and>
    dict_get j ''url'' = Some (JStr u)
      \<longrightarrow> generate_job_id E j = take 12 (md5_hexdigest (encode (t @ c @ u)))) \<and>
   (dict_get j ''title'' = Some (JStr t) \<and> dict_get j ''company'' = Some (JStr c) \<and>
    (dict_get j ''url'' = Some (JStr []) \<or> dict_get j ''url'' = None)
      \<longrightarrow> generate_job_id E j = take 12 (md5_hexdigest (encode (t @ c)))) \<and>
   length (generate_job_id E j) = 12 \<and>
   set (generate_job_id E j) \<subseteq> set hex_digits"
proof -
  have "set (take 12 (md5_hexdigest bs)) \<subseteq> set hex_digits" for bs
    using md5_hexdigest_hex [of bs] set_take_subset [of 12 "md5_hexdigest bs"] by blast
  then show ?thesis
    by (auto simp: generate_job_id_def Let_def dict_get_def dict_get_or_def format_value_def
        length_md5_hexdigest)
qed

theorem generate_job_id_pure_witness:
  "dict_get_or [(''title'', JStr ''Software Engineer''), (''company'', JStr ''Acme''),
                (''location'', JStr ''Remote'')] ''title'' (JStr [])
     = dict_get_or [(''source'', JStr ''LinkedIn''), (''company'', JStr ''Acme''),
                    (''title'', JStr ''Software Engineer'')] ''title'' (JStr []) \<and>
   generate_job_id offline
     [(''title'', JStr ''Software Engineer''), (''company'', JStr ''Acme''),
      (''location'', JStr ''Remote'')]
     = generate_job_id offline
         [(''source'', JStr ''LinkedIn''), (''company'', JStr ''Acme''),
          (''title'', JStr ''Software Engineer'')] \<and>
   generate_job_id offline
     [(''title'', JStr ''Software Engineer''), (''company'', JStr ''Acme''),
      (''location'', JStr ''Remote'')]
     = take 12 (md5_hexdigest (encode ''Software EngineerAcme''))"
  using generate_job_id_pure
    [where ja = "[(''title'', JStr ''Software Engineer''), (''company'', JStr ''Acme''),
                  (''location'', JStr ''Remote'')]"
       and jb = "[(''source'', JStr ''LinkedIn''), (''company'', JStr ''Acme''),
                  (''title'', JStr ''Software Engineer'')]"
       and j = "[(''title'', JStr ''Software Engineer''), (''company'', JStr ''Acme''),
                 (''location'', JStr ''Remote'')]"
       and E = offline and t = "''Software Engineer''" and c = "''Acme''"]
  by (auto simp: dict_get_or_def dict_get_def)

text \<open>
  The claim as stated fails: two records whose titles differ only in letter case get
  different ids.
\<close>

theorem generate_job_id_case_sensitive:
  "lower ''Software Engineer'' = lower ''software engineer'' \<and>
   generate_job_id offline
     [(''title'', JStr ''Software Engineer''), (''company'', JStr ''Acme''), (''url'', JStr [])]
     = ''74c95f148b7d'' \<and>
   generate_job_id offline
     [(''title'', JStr ''software engineer''), (''company'', JStr ''Acme''), (''url'', JStr [])]
     = ''f358a81d9405''"
  by code_simp

section \<open>Email ingestion\<close>

lemma mark_as_read_simps [simp]:
  "files (mark_as_read E m w) = files w"
  "events (mark_as_read E m w) = events w"
  "llm_calls (mark_as_read E m w) = llm_calls w"
  "resume_cache (mark_as_read E m w) = resume_cache w"
  "mark_calls (mark_as_read E m w) = mark_calls w @ [m]"
  by (simp_all add: mark_as_read_def)

lemma log_event_simps [simp]:
  "files (log_event m oc w) = files w"
  "events (log_event m oc w) = events w @ [(m, oc)]"
  "llm_calls (log_event m oc w) = llm_calls w"
  "mark_calls (log_event m oc w) = mark_calls w"
  "marked_read (log_event m oc w) = marked_read w"
  by (simp_all add: log_event_def)

lemma get_all_jobs_calls [simp]: "get_all_jobs (w\<lparr>llm_calls := c\<rparr>) = get_all_jobs w"
  by (simp add: get_all_jobs_def)

text \<open>The three branches of one iteration of \<^verbatim>\<open>check_emails\<close>.\<close>

lemma check_email_skip:
  assumes "any_id_is (email_job_id E e w) (get_all_jobs w) = Inr True"
  shows "files (fst (check_email E e (w, n))) = files w
    \<and> snd (check_email E e (w, n)) = n
    \<and> events (fst (check_email E e (w, n))) = events w @ [(msg_id e, Skipped)]
    \<and> mark_calls (fst (check_email E e (w, n))) = mark_calls w @ [msg_id e]"
proof -
  obtain jd c where "parse_email E (msg_subject e) (msg_body e) (msg_from e) (llm_calls w) = (jd, c)"
    by (cases "parse_email E (msg_subject e) (msg_body e) (msg_from e) (llm_calls w)")
  with assms show ?thesis
    by (simp add: email_job_id_def email_job_def Let_def)
qed

lemma check_email_new:
  assumes "any_id_is (email_job_id E e w) (get_all_jobs w) = Inr False"
  shows "files (fst (check_email E e (w, n))) =
           AList.update (email_job_id E e w)
             (JObj (dict_set (email_job E e w) ''id'' (JStr (email_job_id E e w)))) (files w)
    \<and> snd (check_email E e (w, n)) = n + 1
    \<and> events (fst (check_email E e (w, n))) = events w @ [(msg_id e, Parsed)]
    \<and> mark_calls (fst (check_email E e (w, n))) = mark_calls w @ [msg_id e]"
proof -
  obtain jd c where "parse_email E (msg_subject e) (msg_body e) (msg_from e) (llm_calls w) = (jd, c)"
    by (cases "parse_email E (msg_subject e) (msg_body e) (msg_from e) (llm_calls w)")
  with assms show ?thesis
    by (simp add: email_job_id_def email_job_def Let_def)
qed

lemma check_email_error:
  assumes "any_id_is (email_job_id E e w) (get_all_jobs w) = Inl x"
  shows "files (fst (check_email E e (w, n))) = files w
    \<and> snd (check_email E e (w, n)) = n
    \<and> events (fst (check_email E e (w, n))) = events w @ [(msg_id e, Failed x)]
    \<and> mark_calls (fst (check_email E e (w, n))) = mark_calls w"
proof -
  obtain jd c where "parse_email E (msg_subject e) (msg_body e) (msg_from e) (llm_calls w) = (jd, c)"
    by (cases "parse_email E (msg_subject e) (msg_body e) (msg_from e) (llm_calls w)")
  with assms show ?thesis
    by (simp add: email_job_id_def email_job_def Let_def)
qed

declare check_email.simps [simp del]

lemma any_id_is_dicts:
  assumes "list_all is_dict jobs"
  shows "any_id_is job_id jobs = Inr (\<exists>job \<in> set jobs. job_get job ''id'' JNull = Inr (JStr job_id))"
  using assms
  by (induction jobs) (auto simp: is_dict_def job_get_def split: json.splits)

lemma named_by_id_dict: "named_by_id f \<Longrightarrow> is_dict (snd f)"
  by (auto simp: named_by_id_def is_dict_def split: json.splits)

lemma named_job_get:
  "named_by_id f \<Longrightarrow> (job_get (snd f) ''id'' JNull = Inr (JStr job_id)) = (fst f = job_id)"
  by (auto simp: named_by_id_def job_get_def dict_get_def dict_get_or_def split: json.splits)

lemma store_ok_dicts: "store_ok w \<Longrightarrow> list_all is_dict (get_all_jobs w)"
  by (auto simp: store_ok_def get_all_jobs_def list_all_iff named_by_id_dict)

lemma store_ok_any_id:
  assumes "store_ok w"
  shows "any_id_is job_id (get_all_jobs w) = Inr (job_id \<in> fst ` set (files w))"
proof -
  have "list_all named_by_id fs \<Longrightarrow>
      (\<exists>job \<in> set (map snd fs). job_get job ''id'' JNull = Inr (JStr job_id))
        = (job_id \<in> fst ` set fs)" for fs
    by (induction fs) (auto simp: named_job_get)
  then have "(\<exists>job \<in> set (get_all_jobs w). job_get job ''id'' JNull = Inr (JStr job_id))
      = (job_id \<in> fst ` set (files w))"
    using assms by (simp add: store_ok_def get_all_jobs_def)
  then show ?thesis
    using any_id_is_dicts [OF store_ok_dicts [OF assms]] by simp
qed

lemma filter_fst_distinct:
  "distinct (map fst fs) \<Longrightarrow> k \<in> fst ` set fs \<Longrightarrow> length (filter (\<lambda>f. fst f = k) fs) = 1"
proof (induction fs)
  case Nil
  then show ?case by simp
next
  case (Cons f fs)
  show ?case
  proof (cases "fst f = k")
    case True
    have "fst f \<notin> fst ` set fs"
      using Cons.prems(1) by simp
    then have "\<forall>g \<in> set fs. fst g \<noteq> k"
      using True by (metis imageI)
    then have "filter (\<lambda>f. fst f = k) fs = []"
      by (simp add: filter_empty_conv)
    with True show ?thesis by simp
  next
    case False
    with Cons show ?thesis by auto
  qed
qed

lemma store_ok_one_record:
  assumes "store_ok w" and "job_id \<in> fst ` set (files w)"
  shows "length (records_with_id job_id w) = 1"
proof -
  have "list_all named_by_id fs \<Longrightarrow>
      length (filter (\<lambda>job. job_get job ''id'' JNull = Inr (JStr job_id)) (map snd fs))
        = length (filter (\<lambda>f. fst f = job_id) fs)" for fs
    by (induction fs) (simp_all add: named_job_get)
  then show ?thesis
    using assms filter_fst_distinct [of "files w" job_id]
    by (simp add: records_with_id_def get_all_jobs_def store_ok_def)
qed

lemma list_all_update:
  "list_all P al \<Longrightarrow> P (k, v) \<Longrightarrow> list_all P (AList.update k v al)"
  by (induction al) auto

lemma store_ok_update:
  assumes "store_ok w"
  shows "store_ok (w\<lparr>files := AList.update job_id (JObj (dict_set job ''id'' (JStr job_id))) (files w)\<rparr>)"
proof -
  have "named_by_id (job_id, JObj (dict_set job ''id'' (JStr job_id)))"
    by (simp add: named_by_id_def dict_get_def dict_set_def update_conv')
  then show ?thesis
    using assms by (simp add: store_ok_def distinct_update list_all_update)
qed

lemma store_ok_files: "files w' = files w \<Longrightarrow> store_ok w' = store_ok w"
  by (simp add: store_ok_def)

lemma records_with_id_files: "files w' = files w \<Longrightarrow> records_with_id k w' = records_with_id k w"
  by (simp add: records_with_id_def get_all_jobs_def)

text \<open>After one iteration on a well-formed store, the store is well-formed and holds the id.\<close>

lemma check_email_store_ok:
  assumes "store_ok w"
  shows "store_ok (fst (check_email E e (w, n)))
    \<and> email_job_id E e w \<in> fst ` set (files (fst (check_email E e (w, n))))"
proof (cases "email_job_id E e w \<in> fst ` set (files w)")
  case True
  then have "any_id_is (email_job_id E e w) (get_all_jobs w) = Inr True"
    using store_ok_any_id [OF assms] by simp
  from check_email_skip [OF this, of n] True assms show ?thesis
    by (simp add: store_ok_def)
next
  case False
  then have "any_id_is (email_job_id E e w) (get_all_jobs w) = Inr False"
    using store_ok_any_id [OF assms] by simp
  from check_email_new [OF this, of n] have
    f: "files (fst (check_email E e (w, n))) =
           AList.update (email_job_id E e w)
             (JObj (dict_set (email_job E e w) ''id'' (JStr (email_job_id E e w)))) (files w)"
    by simp
  have "store_ok (fst (check_email E e (w, n)))"
    using store_ok_update [OF assms, of "email_job_id E e w" "email_job E e w"] f
    by (simp add: store_ok_def)
  then show ?thesis
    by (simp add: f dom_update)
qed

lemma check_email_step:
  "\<exists>oc. events (fst (check_email E e (w, n))) = events w @ [(msg_id e, oc)]
     \<and> mark_calls (fst (check_email E e (w, n))) = mark_calls w @ (if marks_read oc then [msg_id e] else [])
     \<and> snd (check_email E e (w, n)) = n + (if oc = Parsed then 1 else 0)"
proof (cases "any_id_is (email_job_id E e w) (get_all_jobs w)")
  case (Inl x)
  from check_email_error [OF this, of n] show ?thesis
    by (intro exI [of _ "Failed x"]) simp
next
  case (Inr b)
  show ?thesis
  proof (cases b)
    case True
    with Inr check_email_skip [of E e w n] show ?thesis
      by (intro exI [of _ Skipped]) simp
  next
    case False
    with Inr check_email_new [of E e w n] show ?thesis
      by (intro exI [of _ Parsed]) simp
  qed
qed

lemma check_emails_loop:
  "\<exists>evs. events (fst (foldl (\<lambda>st email. check_email E email st) (w, n) emails)) = events w @ evs
     \<and> map fst evs = map msg_id emails
     \<and> mark_calls (fst (foldl (\<lambda>st email. check_email E email st) (w, n) emails))
         = mark_calls w @ map fst (filter (\<lambda>ev. marks_read (snd ev)) evs)
     \<and> snd (foldl (\<lambda>st email. check_email E email st) (w, n) emails)
         = n + length (filter (\<lambda>ev. snd ev = Parsed) evs)"
proof (induction emails arbitrary: w n)
  case Nil
  show ?case by simp
next
  case (Cons e emails)
  obtain w1 n1 where s: "check_email E e (w, n) = (w1, n1)"
    by (cases "check_email E e (w, n)")
  obtain oc where oc: "events w1 = events w @ [(msg_id e, oc)]"
      "mark_calls w1 = mark_calls w @ (if marks_read oc then [msg_id e] else [])"
      "n1 = n + (if oc = Parsed then 1 else 0)"
    using check_email_step [of E e w n] s by auto
  obtain evs where evs:
      "events (fst (foldl (\<lambda>st email. check_email E email st) (w1, n1) emails)) = events w1 @ evs"
      "map fst evs = map msg_id emails"
      "mark_calls (fst (foldl (\<lambda>st email. check_email E email st) (w1, n1) emails))
         = mark_calls w1 @ map fst (filter (\<lambda>ev. marks_read (snd ev)) evs)"
      "snd (foldl (\<lambda>st email. check_email E email st) (w1, n1) emails)
         = n1 + length (filter (\<lambda>ev. snd ev = Parsed) evs)"
    using Cons.IH [of w1 n1] by blast
  show ?case
    using oc evs by (intro exI [of _ "(msg_id e, oc) # evs"]) (auto simp: s)
qed

text \<open>
  C7, as amended. \<^verbatim>\<open>check_emails\<close> takes every message of the batch through one
  iteration, in order, whatever happened to the messages before it: each message gets
  one outcome. \<^verbatim>\<open>mark_as_read\<close> is called for exactly the messages that were stored as
  new records or skipped as duplicates, in order; it is not called for a message whose
  iteration raised. The number returned is the number of messages stored.
\<close>

theorem check_emails_marks_processed:
  "\<exists>evs. events (fst (check_emails E emails w)) = events w @ evs
     \<and> map fst evs = map msg_id emails
     \<and> mark_calls (fst (check_emails E emails w))
         = mark_calls w @ map fst (filter (\<lambda>ev. marks_read (snd ev)) evs)
     \<and> snd (check_emails E emails w) = length (filter (\<lambda>ev. snd ev = Parsed) evs)"
  using check_emails_loop [of E w 0 emails] by (simp add: check_emails_def)

text \<open>
  C3. Let the id computed from the parsed message be the id of a stored record (every
  file holding a dict, so that the check reaches that record). Then the iteration takes
  the duplicate branch: the files are unchanged, the count of new records is unchanged,
  the message is reported as skipped and \<^verbatim>\<open>mark_as_read\<close> is called for it. And
  processing a message twice, on a store in which every file is named by the id of the
  dict it holds and with the same id parsed both times, leaves after the second pass
  the files of the first pass and exactly one record with that id.
\<close>

theorem check_email_duplicate:
  "(list_all is_dict (get_all_jobs w) \<and>
    (\<exists>job \<in> set (get_all_jobs w). job_get job ''id'' JNull = Inr (JStr (email_job_id E e w)))
    \<longrightarrow> files (fst (check_email E e (w, n))) = files w
       \<and> snd (check_email E e (w, n)) = n
       \<and> events (fst (check_email E e (w, n))) = events w @ [(msg_id e, Skipped)]
       \<and> mark_calls (fst (check_email E e (w, n))) = mark_calls w @ [msg_id e]) \<and>
   (store_ok w \<and> email_job_id E e (fst (check_email E e (w, n))) = email_job_id E e w
    \<longrightarrow> files (fst (check_email E e (check_email E e (w, n)))) = files (fst (check_email E e (w, n)))
       \<and> snd (check_email E e (check_email E e (w, n))) = snd (check_email E e (w, n))
       \<and> length (records_with_id (email_job_id E e w) (fst (check_email E e (check_email E e (w, n))))) = 1)"
proof (intro conjI impI)
  assume h: "list_all is_dict (get_all_jobs w) \<and>
    (\<exists>job \<in> set (get_all_jobs w). job_get job ''id'' JNull = Inr (JStr (email_job_id E e w)))"
  then have "any_id_is (email_job_id E e w) (get_all_jobs w) = Inr True"
    using any_id_is_dicts [of "get_all_jobs w" "email_job_id E e w"] by simp
  from check_email_skip [OF this, of n]
  show "files (fst (check_email E e (w, n))) = files w"
    and "snd (check_email E e (w, n)) = n"
    and "events (fst (check_email E e (w, n))) = events w @ [(msg_id e, Skipped)]"
    and "mark_calls (fst (check_email E e (w, n))) = mark_calls w @ [msg_id e]"
    by simp_all
next
  assume h: "store_ok w \<and> email_job_id E e (fst (check_email E e (w, n))) = email_job_id E e w"
  obtain w1 n1 where s: "check_email E e (w, n) = (w1, n1)"
    by (cases "check_email E e (w, n)")
  have ok: "store_ok w1" and mem: "email_job_id E e w \<in> fst ` set (files w1)"
    using check_email_store_ok [of w E e n] h s by simp_all
  have same: "email_job_id E e w1 = email_job_id E e w"
    using h s by simp
  have "any_id_is (email_job_id E e w1) (get_all_jobs w1) = Inr True"
    using store_ok_any_id [OF ok] mem same by simp
  from check_email_skip [OF this, of n1]
  have f: "files (fst (check_email E e (w1, n1))) = files w1"
    and c: "snd (check_email E e (w1, n1)) = n1"
    by simp_all
  have "length (records_with_id (email_job_id E e w) (fst (check_email E e (w1, n1)))) = 1"
    using store_ok_one_record [OF ok mem] records_with_id_files [OF f] by simp
  with f c s
  show "files (fst (check_email E e (check_email E e (w, n)))) = files (fst (check_email E e (w, n)))"
    and "snd (check_email E e (check_email E e (w, n))) = snd (check_email E e (w, n))"
    and "length (records_with_id (email_job_id E e w) (fst (check_email E e (check_email E e (w, n))))) = 1"
    by simp_all
qed

text \<open>
  With an endpoint whose answer does not depend on the number of earlier calls, the
  mapping parsed from a message does not depend on the state.
\<close>

lemma attempts_stateless:
  assumes "\<And>n. llm E n prompt = llm E 0 prompt"
  shows "fst (attempts E prompt m idxs r calls) = fst (attempts E prompt m idxs r calls')"
proof (induction idxs arbitrary: r calls calls')
  case Nil
  show ?case by simp
next
  case (Cons i idxs)
  have l: "llm E (length calls) prompt = llm E 0 prompt" "llm E (length calls') prompt = llm E 0 prompt"
    using assms by blast+
  show ?case
    using Cons.IH [of _ "calls @ [prompt]" "calls' @ [prompt]"]
    by (simp add: l split: llm_outcome.split attempt.split)
qed

lemma email_job_stateless:
  assumes "\<And>n p. llm E n p = llm E 0 p"
  shows "email_job E e w = email_job E e empty_world"
  using attempts_stateless [of E _ 3 "[0..<3]" "[]" "llm_calls w" "llm_calls empty_world"] assms
  by (simp add: email_job_def parse_email_def parse_structured_def Let_def split_beta)

lemma acme_job_id: "email_job_id acme_env acme_email w = ''353df23f75cb''"
proof -
  have "llm acme_env n p = llm acme_env 0 p" for n p
    by (simp add: acme_env_def)
  then have "email_job_id acme_env acme_email w = email_job_id acme_env acme_email empty_world"
    using email_job_stateless [of acme_env acme_email w] by (simp add: email_job_id_def)
  also have "\<dots> = ''353df23f75cb''"
    by code_simp
  finally show ?thesis .
qed

theorem check_email_duplicate_witness:
  "list_all is_dict (get_all_jobs acme_world) \<and>
   (\<exists>job \<in> set (get_all_jobs acme_world).
      job_get job ''id'' JNull = Inr (JStr (email_job_id acme_env acme_email acme_world))) \<and>
   store_ok acme_world \<and>
   email_job_id acme_env acme_email (fst (check_email acme_env acme_email (acme_world, 0)))
     = email_job_id acme_env acme_email acme_world \<and>
   files (fst (check_email acme_env acme_email (acme_world, 0))) = files acme_world \<and>
   events (fst (check_email acme_env acme_email (acme_world, 0)))
     = events acme_world @ [(''msg-1'', Skipped)] \<and>
   length (records_with_id (email_job_id acme_env acme_email acme_world)
     (fst (check_email acme_env acme_email (check_email acme_env acme_email (acme_world, 0))))) = 1"
proof -
  have d: "list_all is_dict (get_all_jobs acme_world)"
    by code_simp
  have "\<exists>job \<in> set (get_all_jobs acme_world). job_get job ''id'' JNull = Inr (JStr ''353df23f75cb'')"
    by code_simp
  then have h1: "\<exists>job \<in> set (get_all_jobs acme_world).
      job_get job ''id'' JNull = Inr (JStr (email_job_id acme_env acme_email acme_world))"
    by (simp add: acme_job_id)
  have h2: "store_ok acme_world" by code_simp
  have h3: "email_job_id acme_env acme_email (fst (check_email acme_env acme_email (acme_world, 0)))
     = email_job_id acme_env acme_email acme_world"
    by (simp add: acme_job_id)
  have m: "msg_id acme_email = ''msg-1''" by (simp add: acme_email_def)
  from check_email_duplicate [of acme_world acme_env acme_email 0] d h1 h2 h3 m
  show ?thesis by simp
qed

theorem check_emails_marks_processed_witness:
  "events (fst (check_emails acme_env [acme_email] acme_world)) = [(''msg-1'', Skipped)] \<and>
   mark_calls (fst (check_emails acme_env [acme_email] acme_world)) = [''msg-1''] \<and>
   snd (check_emails acme_env [acme_email] acme_world) = 0"
proof -
  have "any_id_is ''353df23f75cb'' (get_all_jobs acme_world) = Inr True"
    by code_simp
  then have "any_id_is (email_job_id acme_env acme_email acme_world) (get_all_jobs acme_world) = Inr True"
    by (simp add: acme_job_id)
  from check_email_skip [OF this, of 0]
  have ev: "events (fst (check_emails acme_env [acme_email] acme_world)) = [(''msg-1'', Skipped)]"
    by (simp add: check_emails_def acme_world_def empty_world_def acme_email_def)
  have e0: "events acme_world = []" "mark_calls acme_world = []"
    by (simp_all add: acme_world_def empty_world_def)
  from check_emails_marks_processed [of acme_env "[acme_email]" acme_world]
  obtain evs where
    "events (fst (check_emails acme_env [acme_email] acme_world)) = events acme_world @ evs"
    "mark_calls (fst (check_emails acme_env [acme_email] acme_world))
       = mark_calls acme_world @ map fst (filter (\<lambda>ev. marks_read (snd ev)) evs)"
    "snd (check_emails acme_env [acme_email] acme_world)
       = length (filter (\<lambda>ev. snd ev = Parsed) evs)"
    by blast
  with ev e0 show ?thesis by simp
qed

text \<open>
  The claim as stated fails for a message whose iteration raises: with a file in the
  directory that does not hold a dict, the duplicate check raises, the failure is
  reported, and \<^verbatim>\<open>mark_as_read\<close> is not called for the message.
\<close>

theorem check_emails_failure_not_marked:
  "events (fst (check_emails acme_env [acme_email] stray_world)) = [(''msg-1'', Failed AttributeError)] \<and>
   mark_calls (fst (check_emails acme_env [acme_email] stray_world)) = []"
proof -
  have "any_id_is job_id (get_all_jobs stray_world) = Inl AttributeError" for job_id
    by (simp add: stray_world_def empty_world_def get_all_jobs_def job_get_def)
  from check_email_error [OF this, of acme_env acme_email 0]
  show ?thesis
    by (simp add: check_emails_def stray_world_def empty_world_def acme_email_def)
qed

section \<open>Backfill of the parsed email\<close>

lemma dict_get_set: "dict_get (dict_set d k v) k' = (if k' = k then Some v else dict_get d k')"
  by (simp add: dict_get_def dict_set_def update_conv')

lemma dict_has_get: "dict_has d k = (dict_get d k \<noteq> None)"
  by (simp add: dict_has_def dict_get_def)

lemma dict_get_or_get: "dict_get_or d k v = (case dict_get d k of None \<Rightarrow> v | Some x \<Rightarrow> x)"
  by (simp add: dict_get_or_def dict_get_def)

lemma dict_get_fill_missing:
  "dict_get (fill_missing k v d) k' =
     (if k' = k \<and> dict_get d k = None then Some v else dict_get d k')"
  by (simp add: fill_missing_def dict_has_get dict_get_set)

lemma dict_get_fill_title:
  "dict_get (fill_title subject d) k' =
     (if k' = ''title'' \<and> (case dict_get d ''title'' of None \<Rightarrow> True | Some v \<Rightarrow> \<not> py_truthy v)
      then Some (JStr (extract_title_from_subject subject)) else dict_get d k')"
  by (auto simp: fill_title_def dict_has_get dict_get_set dict_get_or_get split: option.splits)

lemma dict_get_backfill:
  "dict_get (backfill subject body sender g) k =
     (if k = ''title'' then
        (case dict_get g ''title'' of
           None \<Rightarrow> Some (JStr (extract_title_from_subject subject))
         | Some v \<Rightarrow> if py_truthy v then Some v else Some (JStr (extract_title_from_subject subject)))
      else if k = ''company'' then Some (dict_get_or g ''company'' (JStr ''Unknown''))
      else if k = ''location'' then Some (dict_get_or g ''location'' (JStr ''Unknown''))
      else if k = ''url'' then Some (dict_get_or g ''url'' (JStr (extract_url body)))
      else if k = ''source'' then Some (dict_get_or g ''source'' (JStr (extract_source sender)))
      else if k = ''description'' then Some (dict_get_or g ''description'' (JStr (take 500 body)))
      else dict_get g k)"
  by (simp add: backfill_def Let_def dict_get_set dict_get_fill_missing dict_get_fill_title
      dict_get_or_get split: option.splits)

lemma parse_email_backfill:
  "fst (parse_email E subject body sender calls)
     = backfill subject body sender (gateway_job E subject body sender calls)"
  by (simp add: parse_email_def gateway_job_def Let_def split_beta)


text \<open>
  The title taken from the subject on examples: one leading \<^verbatim>\<open>Re:\<close> and then one leading
  \<^verbatim>\<open>Fwd:\<close> are removed, in this order.
\<close>

lemma extract_title_examples:
  "extract_title_from_subject ''Senior Backend Engineer - Acme Corp'' = ''Senior Backend Engineer''"
  "extract_title_from_subject ''RE: fwd:  Senior Backend Engineer | Acme Corp''
     = ''Senior Backend Engineer''"
  "extract_title_from_subject ''Fwd: Re: Senior Backend Engineer'' = ''Re: Senior Backend Engineer''"
  by code_simp+

lemma backfill_keys:
  "\<forall>k \<in> set [''title'', ''company'', ''location'', ''url'', ''source'', ''description''].
     dict_has (backfill subject body sender g) k"
  by (simp add: dict_has_get dict_get_backfill split: option.splits)


















text \<open>
  C10. The title from the subject replaces the gateway's title when the key is missing
  and also when its value is the empty string. Company and location become \<^verbatim>\<open>Unknown\<close>
  only when their keys are missing; a value that the gateway gave for them, the empty
  string included, is returned as it is. With an empty company the id is the digest of
  title, the empty string and url.
\<close>

theorem parse_email_backfill_asymmetric:
  "(dict_get (gateway_job E subject body sender calls) ''title'' = None \<or>
    dict_get (gateway_job E subject body sender calls) ''title'' = Some (JStr [])
    \<longrightarrow> dict_get (fst (parse_email E subject body sender calls)) ''title''
          = Some (JStr (extract_title_from_subject subject))) \<and>
   (dict_get (gateway_job E subject body sender calls) ''company'' = None
    \<longrightarrow> dict_get (fst (parse_email E subject body sender calls)) ''company'' = Some (JStr ''Unknown'')) \<and>
   (dict_get (gateway_job E subject body sender calls) ''company'' = Some v
    \<longrightarrow> dict_get (fst (parse_email E subject body sender calls)) ''company'' = Some v) \<and>
   (dict_get (gateway_job E subject body sender calls) ''location'' = None
    \<longrightarrow> dict_get (fst (parse_email E subject body sender calls)) ''location'' = Some (JStr ''Unknown'')) \<and>
   (dict_get (gateway_job E subject body sender calls) ''location'' = Some v'
    \<longrightarrow> dict_get (fst (parse_email E subject body sender calls)) ''location'' = Some v') \<and>
   (dict_get (gateway_job E subject body sender calls) ''company'' = Some (JStr []) \<and>
    dict_get (fst (parse_email E subject body sender calls)) ''title'' = Some (JStr t) \<and>
    dict_get (fst (parse_email E subject body sender calls)) ''url'' = Some (JStr u)
    \<longrightarrow> generate_job_id E (fst (parse_email E subject body sender calls))
          = take 12 (md5_hexdigest (encode (t @ [] @ u))))"
  by (auto simp: parse_email_backfill dict_get_backfill dict_get_or_get generate_job_id_def
      Let_def format_value_def split: option.splits)

theorem parse_email_backfill_asymmetric_witness:
  "dict_get (gateway_job blank_env (msg_subject acme_email) (msg_body acme_email) (msg_from acme_email) []) ''title''
     = Some (JStr []) \<and>
   dict_get (gateway_job blank_env (msg_subject acme_email) (msg_body acme_email) (msg_from acme_email) []) ''company''
     = Some (JStr []) \<and>
   dict_get (gateway_job blank_env (msg_subject acme_email) (msg_body acme_email) (msg_from acme_email) []) ''location''
     = Some (JStr []) \<and>
   dict_get (fst (parse_email blank_env (msg_subject acme_email) (msg_body acme_email) (msg_from acme_email) [])) ''title''
     = Some (JStr ''Senior Backend Engineer'') \<and>
   dict_get (fst (parse_email blank_env (msg_subject acme_email) (msg_body acme_email) (msg_from acme_email) [])) ''company''
     = Some (JStr []) \<and>
   dict_get (fst (parse_email blank_env (msg_subject acme_email) (msg_body acme_email) (msg_from acme_email) [])) ''location''
     = Some (JStr []) \<and>
   generate_job_id blank_env
       (fst (parse_email blank_env (msg_subject acme_email) (msg_body acme_email) (msg_from acme_email) []))
     = take 12 (md5_hexdigest (encode ''Senior Backend Engineerhttps://acme.com/careers/123''))"
proof -
  have g: "gateway_job blank_env (msg_subject acme_email) (msg_body acme_email) (msg_from acme_email) []
      = [(''title'', JStr []), (''company'', JStr []), (''location'', JStr []),
         (''url'', JStr ''https://acme.com/careers/123'')]"
    by code_simp
  have d: "extract_title_from_subject (msg_subject acme_email) = ''Senior Backend Engineer''"
    by code_simp
  have u: "dict_get (fst (parse_email blank_env (msg_subject acme_email) (msg_body acme_email) (msg_from acme_email) [])) ''url''
     = Some (JStr ''https://acme.com/careers/123'')"
    by (simp add: parse_email_backfill dict_get_backfill g dict_get_or_def)
  from parse_email_backfill_asymmetric
    [of blank_env "msg_subject acme_email" "msg_body acme_email" "msg_from acme_email" "[]"
        "JStr []" "JStr []" "''Senior Backend Engineer''" "''https://acme.com/careers/123''"] u
  show ?thesis
    by (simp add: g d dict_get_def)
qed

section \<open>The stored score\<close>

text \<open>
  When \<^verbatim>\<open>score_job\<close> returns, the score of its result is an integer between 0 and 100,
  whatever the gateway returned; the \<^verbatim>\<open>try\<close> around the conversion lets an exception
  through exactly when the score is an infinite float.
\<close>

text \<open>
  \<^verbatim>\<open>int\<close> on strings: blanks and an underscore between digits are accepted, a doubled
  underscore, a decimal point and a leading U+001C are not, and the no-break space and
  U+0085 count as white space.
\<close>

lemma int_of_str_examples:
  "int_of_str '' -1_000 '' = Some (- 1000)"
  "int_of_str [CHR 0x1C, CHR ''5''] = None"
  "int_of_str [CHR 0xA0, CHR ''8'', CHR ''5'', CHR 0x85] = Some 85"
  "int_of_str ''1__0'' = None"
  "int_of_str ''85.5'' = None"
  by code_simp+

lemma py_int_error: "py_int v = Inl e \<Longrightarrow>
   (e = OverflowError \<and> (v = JFloat PInf \<or> v = JFloat NInf)) \<or> e = TypeError \<or> (\<exists>m. e = ValueError m)"
  by (cases v rule: py_int.cases) (auto split: option.splits)

lemma clamp_score_ok:
  assumes "clamp_score d = Inr d'"
  shows "\<exists>n. dict_get d' ''score'' = Some (JInt n) \<and> 0 \<le> n \<and> n \<le> 100"
  using assms
  by (auto simp: clamp_score_def dict_get_set split: sum.splits exn.splits)

lemma clamp_score_raises:
  "(clamp_score d = Inl e) =
     (e = OverflowError \<and> (dict_get d ''score'' = Some (JFloat PInf) \<or> dict_get d ''score'' = Some (JFloat NInf)))"
proof (cases "py_int (dict_get_or d ''score'' (JInt 0))")
  case (Inr i)
  then have "dict_get d ''score'' \<noteq> Some (JFloat PInf)" "dict_get d ''score'' \<noteq> Some (JFloat NInf)"
    by (auto simp: dict_get_or_get)
  with Inr show ?thesis by (simp add: clamp_score_def)
next
  case (Inl x)
  from py_int_error [OF this] show ?thesis
    using Inl
    by (auto simp: clamp_score_def dict_get_or_get split: option.splits exn.splits)
qed

lemma dict_get_scoring_defaults_score:
  "dict_get (scoring_defaults d) ''score'' = dict_get d ''score''"
  by (simp add: scoring_defaults_def Let_def dict_get_fill_missing)

lemma score_job_in_range:
  assumes "fst (score_job E resume_data job calls) = Inr r"
  shows "\<exists>n. dict_get r ''score'' = Some (JInt n) \<and> 0 \<le> n \<and> n \<le> 100"
proof (cases "scoring_prompt E resume_data job")
  case (Inl e)
  with assms show ?thesis by (simp add: score_job_def)
next
  case (Inr prompt)
  obtain g c where g: "parse_structured E prompt 3 calls = (g, c)"
    by (cases "parse_structured E prompt 3 calls")
  show ?thesis
  proof (cases "dict_has g ''error''")
    case True
    with assms Inr g show ?thesis
      by (auto simp: score_job_def scoring_failed_def dict_get_def)
  next
    case False
    show ?thesis
    proof (cases "clamp_score g")
      case (Inl e)
      with assms Inr g False show ?thesis by (simp add: score_job_def)
    next
      case d: (Inr d)
      from clamp_score_ok [OF this] obtain n where
        n: "dict_get d ''score'' = Some (JInt n)" "0 \<le> n" "n \<le> 100" by blast
      from assms Inr g False d n show ?thesis
        by (auto simp: score_job_def Let_def dict_get_set dict_get_scoring_defaults_score
            split: sum.splits)
    qed
  qed
qed


text \<open>A missing score and a score that is not a number become 0.\<close>

lemma clamp_score_non_numeric:
  assumes "dict_get d ''score'' = None \<or> dict_get d ''score'' = Some JNull
      \<or> dict_get d ''score'' = Some (JArr xs) \<or> dict_get d ''score'' = Some (JObj kvs)
      \<or> dict_get d ''score'' = Some (JFloat NaN)
      \<or> (dict_get d ''score'' = Some (JStr s) \<and> int_of_str s = None)"
  shows "clamp_score d = Inr (dict_set d ''score'' (JInt 0))"
  using assms by (auto simp: clamp_score_def dict_get_or_get)

text \<open>
  C2 fails on the code for a score that \<^verbatim>\<open>json.loads\<close> reads as an infinite float (the
  text \<^verbatim>\<open>1e999\<close>, or \<^verbatim>\<open>Infinity\<close>): \<^verbatim>\<open>int\<close> raises \<^verbatim>\<open>OverflowError\<close>, which the handler
  for \<^verbatim>\<open>ValueError\<close> and \<^verbatim>\<open>TypeError\<close> does not catch. \<^verbatim>\<open>score_job\<close> raises, and
  \<^verbatim>\<open>score_jobs\<close> leaves the record as it was, without a score.
\<close>

theorem score_job_infinite_score:
  "fst (score_job huge_score_env python_resume acme_job []) = Inl OverflowError \<and>
   files (score_jobs_step huge_score_env python_resume acme_job acme_world) = files acme_world"
  by code_simp

section \<open>Defaults of the stages\<close>

lemma dict_has_set: "dict_has (dict_set d k v) k' = (k' = k \<or> dict_has d k')"
  by (auto simp: dict_has_get dict_get_set)

lemma dict_has_fill_missing: "dict_has (fill_missing k v d) k' = (k' = k \<or> dict_has d k')"
  by (auto simp: dict_has_get dict_get_fill_missing)

lemma resume_defaults_keys:
  "k \<in> set [''skills'', ''experience_years'', ''experience_level'', ''raw_text'']
     \<Longrightarrow> dict_has (resume_defaults resume_text d) k"
  by (auto simp: resume_defaults_def Let_def dict_has_set dict_has_fill_missing)

lemma parse_resume_keys:
  assumes "fst (parse_resume E True w) = Inr r"
  shows "\<exists>d. r = JObj d \<and>
    (\<forall>k \<in> set [''skills'', ''experience_years'', ''experience_level'', ''raw_text'']. dict_has d k)"
proof -
  obtain g c where g: "parse_structured E (resume_prompt E (get_resume_text E (GOOGLE_DRIVE_RESUME_ID E))) 3 (llm_calls w) = (g, c)"
    by (cases "parse_structured E (resume_prompt E (get_resume_text E (GOOGLE_DRIVE_RESUME_ID E))) 3 (llm_calls w)")
  from assms have "r = JObj (resume_defaults (get_resume_text E (GOOGLE_DRIVE_RESUME_ID E)) g)"
    by (simp add: parse_resume_def fetch_and_parse_resume_def Let_def g split: if_splits)
  then show ?thesis
    using resume_defaults_keys by blast
qed

lemma research_company_keys:
  "k \<in> set [''company'', ''tech_stack'', ''values'', ''recent_news'']
     \<Longrightarrow> dict_has (fst (research_company E company_name max_urls calls)) k"
proof -
  assume k: "k \<in> set [''company'', ''tech_stack'', ''values'', ''recent_news'']"
  let ?pages = "fetch_pages E (take max_urls (search_company E company_name max_urls))"
  obtain g c where g: "parse_structured E (research_prompt E company_name ?pages) 3 calls = (g, c)"
    by (cases "parse_structured E (research_prompt E company_name ?pages) 3 calls")
  have a: "dict_has (no_information company_name) k"
    using k by (auto simp: no_information_def dict_has_def)
  have b: "dict_has (research_failed E company_name srcs g) k" for srcs
    using k by (auto simp: research_failed_def dict_has_def)
  have c: "dict_has (research_defaults company_name srcs g) k" for srcs
    using k by (auto simp: research_defaults_def Let_def dict_has_set dict_has_fill_missing)
  show ?thesis
    using a b c by (simp add: research_company_def Let_def g)
qed

lemma score_job_keys:
  assumes "fst (score_job E resume_data job calls) = Inr r"
    and k: "k \<in> set [''score'', ''reasoning'', ''matched_skills'', ''missing_skills'']"
  shows "dict_has r k"
proof (cases "scoring_prompt E resume_data job")
  case (Inl e)
  with assms show ?thesis by (simp add: score_job_def)
next
  case (Inr prompt)
  obtain g c where g: "parse_structured E prompt 3 calls = (g, c)"
    by (cases "parse_structured E prompt 3 calls")
  show ?thesis
  proof (cases "dict_has g ''error''")
    case True
    with assms Inr g have "r = scoring_failed E g"
      by (simp add: score_job_def)
    with k show ?thesis
      by (auto simp: scoring_failed_def dict_has_def)
  next
    case False
    show ?thesis
    proof (cases "clamp_score g")
      case (Inl e)
      with assms Inr g False show ?thesis by (simp add: score_job_def)
    next
      case d: (Inr d)
      from clamp_score_ok [OF this] have s: "dict_has d ''score''"
        by (auto simp: dict_has_get)
      have "dict_has (scoring_defaults d) k"
        using k s by (auto simp: scoring_defaults_def Let_def dict_has_fill_missing)
      with assms Inr g False d show ?thesis
        by (auto simp: score_job_def Let_def dict_has_set split: sum.splits)
    qed
  qed
qed

text \<open>
  C5, as amended. Each stage fills in the keys that its own code backfills, and only
  those. The record of \<^verbatim>\<open>parse_email\<close> has title, company, location, url, source and
  description. A resume parsed afresh has skills, experience\_years, experience\_level and
  raw\_text. The mapping of \<^verbatim>\<open>research_company\<close> has company, tech\_stack, values and
  recent\_news. The result of \<^verbatim>\<open>score_job\<close>, when it returns, has score, reasoning,
  matched\_skills and missing\_skills.
\<close>

theorem stage_defaults:
  "(\<forall>k \<in> set [''title'', ''company'', ''location'', ''url'', ''source'', ''description''].
      dict_has (fst (parse_email E subject body sender calls)) k) \<and>
   (fst (parse_resume E True w) = Inr r \<longrightarrow>
      (\<exists>d. r = JObj d \<and>
         (\<forall>k \<in> set [''skills'', ''experience_years'', ''experience_level'', ''raw_text''].
            dict_has d k))) \<and>
   (\<forall>k \<in> set [''company'', ''tech_stack'', ''values'', ''recent_news''].
      dict_has (fst (research_company E company_name max_urls calls)) k) \<and>
   (fst (score_job E resume_data job calls) = Inr s \<longrightarrow>
      (\<forall>k \<in> set [''score'', ''reasoning'', ''matched_skills'', ''missing_skills''].
         dict_has s k))"
proof (intro conjI impI ballI)
  fix k assume "k \<in> set [''title'', ''company'', ''location'', ''url'', ''source'', ''description'']"
  then show "dict_has (fst (parse_email E subject body sender calls)) k"
    using backfill_keys [of subject body sender] by (simp only: parse_email_backfill)
next
  assume "fst (parse_resume E True w) = Inr r"
  then show "\<exists>d. r = JObj d \<and>
         (\<forall>k \<in> set [''skills'', ''experience_years'', ''experience_level'', ''raw_text''].
            dict_has d k)"
    by (rule parse_resume_keys)
next
  fix k assume "k \<in> set [''company'', ''tech_stack'', ''values'', ''recent_news'']"
  then show "dict_has (fst (research_company E company_name max_urls calls)) k"
    by (rule research_company_keys)
next
  fix k
  assume "fst (score_job E resume_data job calls) = Inr s"
    and "k \<in> set [''score'', ''reasoning'', ''matched_skills'', ''missing_skills'']"
  then show "dict_has s k"
    by (rule score_job_keys)
qed

theorem stage_defaults_witness:
  "fst (parse_resume empty_object_env True empty_world)
     = Inr (JObj [(''skills'', JArr []), (''experience_years'', JInt 0),
                  (''experience_level'', JStr ''mid''),
                  (''raw_text'', JStr ''Python developer, 5 years'')]) \<and>
   dict_has [(''skills'', JArr []), (''experience_years'', JInt 0),
             (''experience_level'', JStr ''mid''),
             (''raw_text'', JStr ''Python developer, 5 years'')] ''experience_level'' \<and>
   (\<exists>s. fst (score_job empty_object_env python_resume acme_job []) = Inr s \<and> dict_has s ''reasoning'') \<and>
   dict_has (fst (research_company empty_object_env ''Acme'' 5 [])) ''tech_stack'' \<and>
   dict_has (fst (parse_email empty_object_env ''Job'' ''Body'' ''a@b.c'' [])) ''source''"
proof -
  have r: "fst (parse_resume empty_object_env True empty_world)
     = Inr (JObj [(''skills'', JArr []), (''experience_years'', JInt 0),
                  (''experience_level'', JStr ''mid''),
                  (''raw_text'', JStr ''Python developer, 5 years'')])"
    by code_simp
  define s where "s = [(''score'', JInt 0),
       (''reasoning'', JStr ''Score calculated based on resume match''),
       (''matched_skills'', JArr []), (''missing_skills'', JArr []),
       (''resume_skills_count'', JInt 2),
       (''job_title'', JStr ''Senior Backend Engineer''),
       (''job_company'', JStr ''Acme Corp'')]"
  have s: "fst (score_job empty_object_env python_resume acme_job []) = Inr s"
    unfolding s_def by code_simp
  from stage_defaults [of empty_object_env "''Job''" "''Body''" "''a@b.c''" "[]" empty_world _
      "''Acme''" 5 python_resume acme_job s] r s
  show ?thesis by auto
qed

text \<open>
  The claim as stated fails: the resume prompt asks for the education, and a gateway
  answer without it gives a profile without that key.
\<close>

theorem parse_resume_missing_education:
  "fst (parse_resume empty_object_env True empty_world)
     = Inr (JObj [(''skills'', JArr []), (''experience_years'', JInt 0),
                  (''experience_level'', JStr ''mid''),
                  (''raw_text'', JStr ''Python developer, 5 years'')]) \<and>
   ''education'' \<in> set resume_fields \<and>
   \<not> dict_has [(''skills'', JArr []), (''experience_years'', JInt 0),
               (''experience_level'', JStr ''mid''),
               (''raw_text'', JStr ''Python developer, 5 years'')] ''education''"
  by code_simp

section \<open>Company research without pages\<close>

lemma research_company_short_circuit:
  assumes "fetch_pages E (take max_urls (search_company E company_name max_urls)) = []"
  shows "research_company E company_name max_urls calls = (no_information company_name, calls)"
  using assms by (simp add: research_company_def Let_def)

text \<open>
  C8. With no page fetched, \<^verbatim>\<open>research_company\<close> returns without a call of the gateway
  (the list of prompts sent is unchanged) a mapping of six keys: the company, the
  summary \<^verbatim>\<open>No information found\<close>, three empty lists and the culture \<^verbatim>\<open>Unknown\<close>. The
  keys size, industry, funding\_stage and sources, which the branch for a gateway error
  of the same function fills, are missing.
\<close>

theorem research_company_no_pages:
  "research_company offline ''Acme'' 5 []
     = ([(''company'', JStr ''Acme''), (''summary'', JStr ''No information found''),
         (''tech_stack'', JArr []), (''values'', JArr []), (''recent_news'', JArr []),
         (''culture'', JStr ''Unknown'')], []) \<and>
   dict_get (fst (research_company offline ''Acme'' 5 [])) ''size'' = None \<and>
   dict_get (fst (research_company offline ''Acme'' 5 [])) ''industry'' = None \<and>
   dict_get (fst (research_company offline ''Acme'' 5 [])) ''funding_stage'' = None \<and>
   dict_get (fst (research_company offline ''Acme'' 5 [])) ''sources'' = None"
  by code_simp

section \<open>Review\<close>



















end
